theory Spec2Isabelle
  imports Main "HOL-Library.AList"
begin

section \<open>Strings\<close>

text \<open>
  A JavaScript string is a sequence of UTF-16 code units. It is modelled as a
  \<open>string\<close>, one \<open>char\<close> per code unit, which covers the code units below 256
  (ASCII and Latin-1); every marker the parser looks for (\<open>-\<close>, \<open>=\<close>, \<open>|\<close>,
  \<open>[\<close>, \<open>]\<close>, the backtick, the newline) lies in that range.
\<close>

text \<open>\<open>String.prototype.indexOf\<close> for a one-character needle: the first index, or \<open>-1\<close>.\<close>

primrec indexOf :: "string \<Rightarrow> char \<Rightarrow> int" where
  "indexOf [] c = - 1"
| "indexOf (x # xs) c =
     (if x = c then 0 else (let i = indexOf xs c in if i = - 1 then - 1 else i + 1))"

text \<open>\<open>s.startsWith(c)\<close> for a one-character prefix.\<close>

definition startsWith :: "string \<Rightarrow> char \<Rightarrow> bool" where
  "startsWith s c = (case s of [] \<Rightarrow> False | x # _ \<Rightarrow> x = c)"

text \<open>\<open>s.slice(a)\<close> and \<open>s.slice(0, b)\<close> for indices that are not negative.\<close>

definition sliceFrom :: "string \<Rightarrow> nat \<Rightarrow> string" where
  "sliceFrom s a = drop a s"

definition sliceTo :: "string \<Rightarrow> int \<Rightarrow> string" where
  "sliceTo s b = take (nat b) s"

section \<open>Data model\<close>

text \<open>
  \<open>Location\<close> of \<open>types/notation\<close>, as \<open>collectAllTags\<close> builds it. The record is
  named \<open>Loc\<close> because \<open>LocationTag\<close> is the entity, and its \<open>file\<close> field is
  \<open>filePath\<close>; line numbers are offsets
  into the document.
\<close>

record Loc =
  filePath :: string
  lineNumber :: nat
  session :: string
  scene :: string

text \<open>
  The fields every canonical entity has. \<open>eid\<close> is the source's \<open>id\<close>.
  \<open>NPC\<close>, \<open>LocationTag\<close> and \<open>PlayerCharacter\<close> add a tag list and have the same
  shape; \<open>Thread\<close> adds a state.
\<close>

record Entity =
  eid :: string
  name :: string
  firstMention :: Loc
  mentions :: "Loc list"

record NPC = Entity +
  tags :: "string list"

type_synonym LocationTag = NPC
type_synonym PlayerCharacter = NPC

record Thread = Entity +
  state :: string

section \<open>The merge engine of \<open>NotationParser\<close>\<close>

text \<open>
  A \<open>Map<string, T>\<close> is an association list in insertion order: \<open>get\<close> is
  \<open>map_of\<close>, and \<open>set\<close> is \<open>AList.update\<close>, which replaces the value of a key
  that is present where it stands and appends a new key at the end.

  The merge loops mutate the record stored in the map; the model returns the
  updated map. The records handed to a merge function are built one per tag
  occurrence, so no two of them share a \<open>tags\<close> or \<open>mentions\<close> array and value
  semantics is exact.
\<close>

text \<open>\<open>getTagKey\<close>: the part of a tag before the first \<open>=\<close>, or the whole tag.\<close>

definition getTagKey :: "string \<Rightarrow> string" where
  "getTagKey tag =
     (let equalsIndex = indexOf tag CHR ''=''
      in if equalsIndex \<noteq> - 1 then sliceTo tag equalsIndex else tag)"

text \<open>
  The body of the loop \<open>for (const tag of npc.tags)\<close>, the same in \<open>mergeNPCs\<close>,
  \<open>mergeLocations\<close> and \<open>mergePlayerCharacters\<close>: the existing tag list and one
  tag of the new mention give the updated tag list.
\<close>

definition mergeTag :: "string list \<Rightarrow> string \<Rightarrow> string list" where
  "mergeTag existing_tags tag =
     (if startsWith tag CHR ''-'' then
        (let tagToRemove = sliceFrom tag 1
         in filter (\<lambda>t. t \<noteq> tagToRemove) existing_tags)
      else
        (let newTagKey = getTagKey tag;
             ts = (if newTagKey \<noteq> tag
                   then filter (\<lambda>t. getTagKey t \<noteq> newTagKey) existing_tags
                   else existing_tags)
         in if tag \<in> set ts then ts else ts @ [tag]))"

text \<open>One iteration of \<open>for (const npc of npcs)\<close>.\<close>

definition mergeNPC :: "(string \<times> NPC) list \<Rightarrow> NPC \<Rightarrow> (string \<times> NPC) list" where
  "mergeNPC merged npc =
     (case map_of merged (eid npc) of
        Some existing \<Rightarrow>
          AList.update (eid npc)
            (existing\<lparr>tags := foldl mergeTag (tags existing) (tags npc),
                      mentions := mentions existing @ mentions npc\<rparr>) merged
      | None \<Rightarrow> AList.update (eid npc) npc merged)"

definition mergeNPCs :: "NPC list \<Rightarrow> (string \<times> NPC) list" where
  "mergeNPCs npcs = foldl mergeNPC [] npcs"

text \<open>\<open>mergeLocations\<close> and \<open>mergePlayerCharacters\<close> repeat the loop of \<open>mergeNPCs\<close>.\<close>

definition mergeLocation ::
  "(string \<times> LocationTag) list \<Rightarrow> LocationTag \<Rightarrow> (string \<times> LocationTag) list" where
  "mergeLocation merged loc =
     (case map_of merged (eid loc) of
        Some existing \<Rightarrow>
          AList.update (eid loc)
            (existing\<lparr>tags := foldl mergeTag (tags existing) (tags loc),
                      mentions := mentions existing @ mentions loc\<rparr>) merged
      | None \<Rightarrow> AList.update (eid loc) loc merged)"

definition mergeLocations :: "LocationTag list \<Rightarrow> (string \<times> LocationTag) list" where
  "mergeLocations locations = foldl mergeLocation [] locations"

definition mergePlayerCharacter ::
  "(string \<times> PlayerCharacter) list \<Rightarrow> PlayerCharacter \<Rightarrow> (string \<times> PlayerCharacter) list" where
  "mergePlayerCharacter merged pc =
     (case map_of merged (eid pc) of
        Some existing \<Rightarrow>
          AList.update (eid pc)
            (existing\<lparr>tags := foldl mergeTag (tags existing) (tags pc),
                      mentions := mentions existing @ mentions pc\<rparr>) merged
      | None \<Rightarrow> AList.update (eid pc) pc merged)"

definition mergePlayerCharacters :: "PlayerCharacter list \<Rightarrow> (string \<times> PlayerCharacter) list" where
  "mergePlayerCharacters pcs = foldl mergePlayerCharacter [] pcs"

text \<open>\<open>mergeThreads\<close>: the state is overwritten, the mentions are appended.\<close>

definition mergeThread :: "(string \<times> Thread) list \<Rightarrow> Thread \<Rightarrow> (string \<times> Thread) list" where
  "mergeThread merged thread =
     (case map_of merged (eid thread) of
        Some existing \<Rightarrow>
          AList.update (eid thread)
            (existing\<lparr>state := state thread,
                      mentions := mentions existing @ mentions thread\<rparr>) merged
      | None \<Rightarrow> AList.update (eid thread) thread merged)"

definition mergeThreads :: "Thread list \<Rightarrow> (string \<times> Thread) list" where
  "mergeThreads threads = foldl mergeThread [] threads"

text \<open>
  The three-rule tag diff in the words of the specification, to be compared with
  \<open>mergeTag\<close>: a tag that starts with \<open>-\<close> removes the exact tag without the
  \<open>-\<close>; otherwise a tag that contains \<open>=\<close> removes every existing tag with the
  same key (the text before the first \<open>=\<close>) and is appended; any other tag is
  appended when it is not already present.
\<close>

definition tagDiff :: "string list \<Rightarrow> string \<Rightarrow> string list" where
  "tagDiff ts tag =
     (if tag \<noteq> [] \<and> hd tag = CHR ''-'' then removeAll (tl tag) ts
      else if CHR ''='' \<in> set tag
        then filter (\<lambda>t. takeWhile (\<lambda>x. x \<noteq> CHR ''='') t \<noteq> takeWhile (\<lambda>x. x \<noteq> CHR ''='') tag) ts @ [tag]
      else if tag \<in> set ts then ts else ts @ [tag])"

text \<open>
  The record of one tag occurrence: its location is both the first mention and
  the only mention, as in the literals of \<open>collectAllTags\<close>.
\<close>

definition npcAt :: "string \<Rightarrow> string \<Rightarrow> string list \<Rightarrow> Loc \<Rightarrow> NPC" where
  "npcAt i n ts loc = \<lparr>eid = i, name = n, firstMention = loc, mentions = [loc], tags = ts\<rparr>"

definition threadAt :: "string \<Rightarrow> string \<Rightarrow> string \<Rightarrow> Loc \<Rightarrow> Thread" where
  "threadAt i n st loc = \<lparr>eid = i, name = n, firstMention = loc, mentions = [loc], state = st\<rparr>"

definition lineLoc :: "nat \<Rightarrow> Loc" where
  "lineLoc n = \<lparr>filePath = ''campaign.md'', lineNumber = n, session = ''Session 1'', scene = ''S1''\<rparr>"

section \<open>More strings\<close>

text \<open>
  The white space of \<open>trim\<close> and of \<open>\s\<close> below code unit 256: tab, line feed,
  vertical tab, form feed, carriage return, space and no-break space.
\<close>

definition isSpace :: "char \<Rightarrow> bool" where
  "isSpace c = (of_char c \<in> {9, 10, 11, 12, 13, 32, 160 :: nat})"

definition isDigit :: "char \<Rightarrow> bool" where
  "isDigit c = (48 \<le> (of_char c :: nat) \<and> (of_char c :: nat) \<le> 57)"

text \<open>
  \<open>toLowerCase\<close>, one code unit at a time: the ASCII capitals, and the Latin-1
  capitals \<open>0xC0\<close> to \<open>0xDE\<close> without the multiplication sign \<open>0xD7\<close>, move up by 32.
\<close>

definition toLowerChar :: "char \<Rightarrow> char" where
  "toLowerChar c =
     (case map_of (zip ''ABCDEFGHIJKLMNOPQRSTUVWXYZ'' ''abcdefghijklmnopqrstuvwxyz'') c of
        Some l \<Rightarrow> l
      | None \<Rightarrow>
          (let n = (of_char c :: nat)
           in if 192 \<le> n \<and> n \<le> 222 \<and> n \<noteq> 215 then char_of (n + 32) else c))"

definition toLowerCase :: "string \<Rightarrow> string" where
  "toLowerCase s = map toLowerChar s"

definition trim :: "string \<Rightarrow> string" where
  "trim s = rev (dropWhile isSpace (rev (dropWhile isSpace s)))"

text \<open>\<open>s.split(c)\<close> for a one-character separator: never the empty list.\<close>

fun splitOn :: "char \<Rightarrow> string \<Rightarrow> string list" where
  "splitOn c [] = [[]]"
| "splitOn c (x # xs) =
     (if x = c then [] # splitOn c xs
      else (case splitOn c xs of [] \<Rightarrow> [[x]] | p # ps \<Rightarrow> (x # p) # ps))"

text \<open>\<open>parts.join(c)\<close> for a one-character separator.\<close>

fun joinWith :: "char \<Rightarrow> string list \<Rightarrow> string" where
  "joinWith c [] = []"
| "joinWith c [p] = p"
| "joinWith c (p # q # ps) = p @ c # joinWith c (q # ps)"

text \<open>The decimal digits of a number, as a template literal prints it.\<close>

fun showNat :: "nat \<Rightarrow> string" where
  "showNat n =
     (if n < 10 then [''0123456789'' ! n]
      else showNat (n div 10) @ [''0123456789'' ! (n mod 10)])"

declare showNat.simps [simp del]

text \<open>\<open>s.startsWith(p)\<close> for a prefix of any length.\<close>

definition isPrefixOf :: "string \<Rightarrow> string \<Rightarrow> bool" where
  "isPrefixOf p s = (take (length p) s = p)"

text \<open>
  A run of decimal digits as a number, as \<open>parseInt\<close> reads it. Beyond \<open>2^53\<close>
  \<open>parseInt\<close> rounds, which keeps the order of the numbers.
\<close>

definition parseDigits :: "string \<Rightarrow> nat" where
  "parseDigits ds = foldl (\<lambda>a d. 10 * a + (of_char d - 48)) 0 ds"

section \<open>Elements, scenes and sessions\<close>

text \<open>
  The notation elements, each with its \<open>lineNumber\<close> first. The type
  declarations are not part of the sources at hand; the variants and their
  fields are those that \<open>collectAllTags\<close> reads and the parser tests check.
\<close>

datatype NotationElement =
    Action nat string
  | OracleQuestion nat string
  | MechanicsRoll nat string string "bool option"
  | OracleResult nat string "string option"
  | Consequence nat string
  | TableLookup nat string string
  | Generator nat string string
  | MetaNote nat string string
  | TextLine nat string

fun elementLine :: "NotationElement \<Rightarrow> nat" where
  "elementLine (Action n _) = n"
| "elementLine (OracleQuestion n _) = n"
| "elementLine (MechanicsRoll n _ _ _) = n"
| "elementLine (OracleResult n _ _) = n"
| "elementLine (Consequence n _) = n"
| "elementLine (TableLookup n _ _) = n"
| "elementLine (Generator n _ _) = n"
| "elementLine (MetaNote n _ _) = n"
| "elementLine (TextLine n _) = n"

record Scene =
  sceneId :: string
  sceneNumber :: string
  sceneContext :: "string option"
  sceneStartLine :: nat
  sceneEndLine :: nat
  elements :: "NotationElement list"

record Session =
  number :: nat
  date :: "string option"
  duration :: "string option"
  recap :: "string option"
  goals :: "string option"
  scenes :: "Scene list"
  startLine :: nat
  endLine :: nat
  metadata :: "(string \<times> string) list"
  linkedFile :: "string option"

section \<open>Collecting the tags of all sessions\<close>

text \<open>
  The progress entities that the tag extractor returns and \<open>collectAllTags\<close>
  passes on: clocks, tracks and events have a current and a total value, a
  timer has one value (\<open>value\<close> in the source).
\<close>

record Tracked =
  pid :: string
  pname :: string
  progressLocations :: "Loc list"

record Clock = Tracked +
  current :: nat
  total :: nat

type_synonym Track = Clock
type_synonym Event = Clock

record Timer = Tracked +
  timerValue :: nat

record Reference = Entity +
  rtype :: string

text \<open>What \<open>extractReferences\<close> returns for one back-reference: its type and name.\<close>

record RefMention =
  refType :: string
  refName :: string

record ExtractedTags =
  npcs :: "NPC list"
  locations :: "LocationTag list"
  threads :: "Thread list"
  clocks :: "Clock list"
  tracks :: "Track list"
  timers :: "Timer list"
  events :: "Event list"
  playerCharacters :: "PlayerCharacter list"

record AllTags = ExtractedTags +
  references :: "Reference list"

text \<open>
  The class \<open>TagExtractor\<close> is not among the sources; \<open>collectAllTags\<close> calls its
  methods \<open>extractTags\<close> and \<open>extractReferences\<close>, which are parameters here.
\<close>

record TagExtractor =
  extractTags :: "string \<Rightarrow> Loc \<Rightarrow> ExtractedTags"
  extractReferences :: "string \<Rightarrow> RefMention list"

text \<open>
  The chain of tests on \<open>element.type\<close>: the text to scan, or \<open>None\<close> for a meta
  note, where the loop continues with the next element.
\<close>

fun contentToScan :: "NotationElement \<Rightarrow> string option" where
  "contentToScan (Action _ content) = Some content"
| "contentToScan (OracleQuestion _ question) = Some question"
| "contentToScan (MechanicsRoll _ roll outcome _) = Some (roll @ '' '' @ outcome)"
| "contentToScan (OracleResult _ answer _) = Some answer"
| "contentToScan (Consequence _ description) = Some description"
| "contentToScan (TextLine _ content) = Some content"
| "contentToScan (TableLookup _ _ result) = Some result"
| "contentToScan (Generator _ _ result) = Some result"
| "contentToScan (MetaNote _ _ _) = None"

definition emptyTags :: AllTags where
  "emptyTags = \<lparr>npcs = [], locations = [], threads = [], clocks = [], tracks = [],
     timers = [], events = [], playerCharacters = [], references = []\<rparr>"

text \<open>The body of \<open>for (const ref of refs)\<close>.\<close>

definition collectReference :: "Loc \<Rightarrow> AllTags \<Rightarrow> RefMention \<Rightarrow> AllTags" where
  "collectReference location acc ref =
     (let acc1 = acc\<lparr>references := references acc @
            [\<lparr>eid = refName ref, name = refName ref, firstMention = location,
              mentions = [location], rtype = refType ref\<rparr>]\<rparr>
      in if refType ref = ''npc'' then
           acc1\<lparr>npcs := npcs acc1 @
             [\<lparr>eid = ''npc:'' @ toLowerCase (refName ref), name = refName ref,
               firstMention = location, mentions = [location], tags = []\<rparr>]\<rparr>
         else if refType ref = ''location'' then
           acc1\<lparr>locations := locations acc1 @
             [\<lparr>eid = ''location:'' @ toLowerCase (refName ref), name = refName ref,
               firstMention = location, mentions = [location], tags = []\<rparr>]\<rparr>
         else acc1)"

text \<open>The body of \<open>for (const element of scene.elements)\<close>.\<close>

definition collectElement ::
  "TagExtractor \<Rightarrow> string \<Rightarrow> Session \<Rightarrow> Scene \<Rightarrow> AllTags \<Rightarrow> NotationElement \<Rightarrow> AllTags" where
  "collectElement tagExtractor path sess sc acc element =
     (let location = \<lparr>filePath = path, lineNumber = elementLine element,
            session = ''Session '' @ showNat (number sess), scene = sceneNumber sc\<rparr>
      in case contentToScan element of
           None \<Rightarrow> acc
         | Some content \<Rightarrow>
             if content = [] then acc
             else
               (let found = extractTags tagExtractor content location;
                    acc1 = acc\<lparr>npcs := npcs acc @ npcs found,
                      locations := locations acc @ locations found,
                      threads := threads acc @ threads found,
                      clocks := clocks acc @ clocks found,
                      tracks := tracks acc @ tracks found,
                      timers := timers acc @ timers found,
                      events := events acc @ events found,
                      playerCharacters := playerCharacters acc @ playerCharacters found\<rparr>
                in foldl (collectReference location) acc1
                     (extractReferences tagExtractor content)))"

definition collectAllTags :: "TagExtractor \<Rightarrow> Session list \<Rightarrow> string \<Rightarrow> AllTags" where
  "collectAllTags tagExtractor sessions path =
     foldl (\<lambda>acc sess.
        foldl (\<lambda>acc sc. foldl (collectElement tagExtractor path sess sc) acc (elements sc))
          acc (scenes sess))
       emptyTags sessions"

text \<open>\<open>mergeReferences\<close>: the key is type, colon, id; only the mentions grow.\<close>

definition mergeReference ::
  "(string \<times> Reference) list \<Rightarrow> Reference \<Rightarrow> (string \<times> Reference) list" where
  "mergeReference merged ref =
     (let key = rtype ref @ '':'' @ eid ref
      in case map_of merged key of
           Some existing \<Rightarrow>
             AList.update key (existing\<lparr>mentions := mentions existing @ mentions ref\<rparr>) merged
         | None \<Rightarrow> AList.update key ref merged)"

definition mergeReferences :: "Reference list \<Rightarrow> (string \<times> Reference) list" where
  "mergeReferences refs = foldl mergeReference [] refs"

section \<open>The tag extractor, the code block parser and the progress helper\<close>

text \<open>
  The classes \<open>TagExtractor\<close>, \<open>CodeBlockParser\<close> and \<open>ProgressParser\<close> are not
  among the sources; only their tests and their callers are. The definitions of
  this section are written from the specification and agree with the tests.
\<close>

text \<open>
  Modelled from the spec: the scan of \<open>TagExtractor\<close> for bracketed tags, which
  is missing. From left to right, a tag is one of the given openers (such as
  \<open>[N:\<close>), a body without \<open>]\<close>, and the closing \<open>]\<close>; the scan goes on after the
  closing bracket, so tags come out in their order of appearance.
\<close>

function scanTags :: "(string \<times> 'k) list \<Rightarrow> string \<Rightarrow> ('k \<times> string) list" where
  "scanTags openers [] = []"
| "scanTags openers (c # cs) =
     (case find (\<lambda>ok. isPrefixOf (fst ok) (c # cs)) openers of
        Some ok \<Rightarrow>
          (if CHR '']'' \<in> set (drop (length (fst ok)) (c # cs))
           then (snd ok, takeWhile (\<lambda>x. x \<noteq> CHR '']'') (drop (length (fst ok)) (c # cs)))
                # scanTags openers
                    (tl (dropWhile (\<lambda>x. x \<noteq> CHR '']'') (drop (length (fst ok)) (c # cs))))
           else scanTags openers cs)
      | None \<Rightarrow> scanTags openers cs)"
  by pat_completeness auto
termination
proof (relation "measure (\<lambda>(openers, text). length text)")
  fix openers :: "(string \<times> 'k) list" and c :: char and cs :: string and ok :: "string \<times> 'k"
  have "length (tl (dropWhile (\<lambda>x. x \<noteq> CHR '']'') (drop (length (fst ok)) (c # cs))))
      \<le> length (dropWhile (\<lambda>x. x \<noteq> CHR '']'') (drop (length (fst ok)) (c # cs)))"
    by simp
  also have "\<dots> \<le> length (drop (length (fst ok)) (c # cs))"
    by (rule length_dropWhile_le)
  also have "\<dots> \<le> length (c # cs)"
    by simp
  finally have le: "length (tl (dropWhile (\<lambda>x. x \<noteq> CHR '']'') (drop (length (fst ok)) (c # cs))))
      \<le> Suc (length cs)"
    by simp
  assume "CHR '']'' \<in> set (drop (length (fst ok)) (c # cs))"
  then have "dropWhile (\<lambda>x. x \<noteq> CHR '']'') (drop (length (fst ok)) (c # cs)) \<noteq> []"
    by (simp add: dropWhile_eq_Nil_conv)
  then have "length (tl (dropWhile (\<lambda>x. x \<noteq> CHR '']'') (drop (length (fst ok)) (c # cs))))
      < length (dropWhile (\<lambda>x. x \<noteq> CHR '']'') (drop (length (fst ok)) (c # cs)))"
    by (cases "dropWhile (\<lambda>x. x \<noteq> CHR '']'') (drop (length (fst ok)) (c # cs))") simp_all
  also have "\<dots> \<le> length (drop (length (fst ok)) (c # cs))"
    by (rule length_dropWhile_le)
  also have "\<dots> \<le> length (c # cs)"
    by simp
  finally show "((openers, tl (dropWhile (\<lambda>x. x \<noteq> CHR '']'') (drop (length (fst ok)) (c # cs)))),
                 (openers, c # cs)) \<in> measure (\<lambda>(openers, text). length text)"
    by simp
qed simp_all

text \<open>
  Modelled from the spec: the record for the body of a tag \<open>[N:...]\<close>, \<open>[L:...]\<close> or
  \<open>[PC:...]\<close> of the missing \<open>TagExtractor\<close>. The body is \<open>Name\<close> or
  \<open>Name|tag1|tag2|...\<close>; the name and each tag are trimmed; an empty name gives
  no mention; the identity key is the kind prefix, a colon and the trimmed name
  in lower case.
\<close>

definition parseTagged :: "string \<Rightarrow> Loc \<Rightarrow> string \<Rightarrow> NPC option" where
  "parseTagged kindPrefix location body =
     (let parts = splitOn CHR ''|'' body; n = trim (hd parts)
      in if n = [] then None
         else Some \<lparr>eid = kindPrefix @ '':'' @ toLowerCase n, name = n,
                    firstMention = location, mentions = [location],
                    tags = map trim (tl parts)\<rparr>)"

text \<open>
  Modelled from the spec: the record for the body of \<open>[Thread:Name|state]\<close> of the
  missing \<open>TagExtractor\<close>. Without a state segment, or with an empty name, the
  thread is not emitted.
\<close>

definition parseThread :: "Loc \<Rightarrow> string \<Rightarrow> Thread option" where
  "parseThread location body =
     (let parts = splitOn CHR ''|'' body; n = trim (hd parts)
      in if n = [] \<or> length parts < 2 \<or> trim (parts ! 1) = [] then None
         else Some \<lparr>eid = ''thread:'' @ toLowerCase n, name = n,
                    firstMention = location, mentions = [location],
                    state = trim (parts ! 1)\<rparr>)"

text \<open>
  Modelled from the spec: the record for the body of \<open>[Clock:Name 3/6]\<close> or
  \<open>[Clock:Name|3/6]\<close> of the missing \<open>TagExtractor\<close>, the same for \<open>Track\<close> and
  \<open>E\<close>. The body ends with \<open>current/total\<close>, after a space or a bar; what stands
  before is the name, trimmed; an empty name gives no mention.
\<close>

definition parseProgress :: "string \<Rightarrow> Loc \<Rightarrow> string \<Rightarrow> Clock option" where
  "parseProgress kindPrefix location body =
     (let r = rev body;
          tot = rev (takeWhile isDigit r); r1 = dropWhile isDigit r;
          cur = rev (takeWhile isDigit (tl r1)); r2 = dropWhile isDigit (tl r1);
          n = trim (rev (tl r2))
      in if tot = [] \<or> r1 = [] \<or> hd r1 \<noteq> CHR ''/'' \<or> cur = [] \<or> r2 = []
            \<or> (hd r2 \<noteq> CHR '' '' \<and> hd r2 \<noteq> CHR ''|'') \<or> n = []
         then None
         else Some \<lparr>pid = kindPrefix @ '':'' @ toLowerCase n, pname = n,
                    progressLocations = [location],
                    current = parseDigits cur, total = parseDigits tot\<rparr>)"

text \<open>
  Modelled from the spec: the record for the body of \<open>[Timer:Name 5]\<close> or
  \<open>[Timer:Name|5]\<close> of the missing \<open>TagExtractor\<close>.
\<close>

definition parseTimer :: "Loc \<Rightarrow> string \<Rightarrow> Timer option" where
  "parseTimer location body =
     (let r = rev body;
          v = rev (takeWhile isDigit r); r1 = dropWhile isDigit r;
          n = trim (rev (tl r1))
      in if v = [] \<or> r1 = [] \<or> (hd r1 \<noteq> CHR '' '' \<and> hd r1 \<noteq> CHR ''|'') \<or> n = []
         then None
         else Some \<lparr>pid = ''timer:'' @ toLowerCase n, pname = n,
                    progressLocations = [location], timerValue = parseDigits v\<rparr>)"

text \<open>
  Modelled from the spec: \<open>extractTags\<close> of the missing \<open>TagExtractor\<close>, one scan
  per kind of tag; the kind keywords are case-sensitive.
\<close>

definition specExtractTags :: "string \<Rightarrow> Loc \<Rightarrow> ExtractedTags" where
  "specExtractTags text location =
     \<lparr>npcs = List.map_filter (\<lambda>kb. parseTagged ''npc'' location (snd kb))
               (scanTags [(''[N:'', ())] text),
      locations = List.map_filter (\<lambda>kb. parseTagged ''location'' location (snd kb))
               (scanTags [(''[L:'', ())] text),
      threads = List.map_filter (\<lambda>kb. parseThread location (snd kb))
               (scanTags [(''[Thread:'', ())] text),
      clocks = List.map_filter (\<lambda>kb. parseProgress ''clock'' location (snd kb))
               (scanTags [(''[Clock:'', ())] text),
      tracks = List.map_filter (\<lambda>kb. parseProgress ''track'' location (snd kb))
               (scanTags [(''[Track:'', ())] text),
      timers = List.map_filter (\<lambda>kb. parseTimer location (snd kb))
               (scanTags [(''[Timer:'', ())] text),
      events = List.map_filter (\<lambda>kb. parseProgress ''event'' location (snd kb))
               (scanTags [(''[E:'', ())] text),
      playerCharacters = List.map_filter (\<lambda>kb. parseTagged ''pc'' location (snd kb))
               (scanTags [(''[PC:'', ())] text)\<rparr>"

text \<open>
  Modelled from the spec: \<open>extractReferences\<close> of the missing \<open>TagExtractor\<close>. A
  back-reference is \<open>[#N:Name]\<close> or \<open>[#L:Name]\<close>; the name is trimmed, and an
  empty name gives no reference.
\<close>

definition specExtractReferences :: "string \<Rightarrow> RefMention list" where
  "specExtractReferences text =
     List.map_filter
       (\<lambda>kb. if trim (snd kb) = [] then None
              else Some \<lparr>refType = fst kb, refName = trim (snd kb)\<rparr>)
       (scanTags [(''[#N:'', ''npc''), (''[#L:'', ''location'')] text)"

text \<open>
  Modelled from the spec: the two methods of the missing \<open>TagExtractor\<close> that
  \<open>collectAllTags\<close> calls, as one extractor.
\<close>

definition specTagExtractor :: TagExtractor where
  "specTagExtractor =
     \<lparr>extractTags = specExtractTags, extractReferences = specExtractReferences\<rparr>"






text \<open>
  Modelled from the spec: \<open>calculateProgress\<close> of the missing \<open>ProgressParser\<close>, an
  integer percentage from 0 to 100, rounded, and 0 when the total is 0. The
  quotient \<open>100 * current / total\<close> is rounded as \<open>Math.round\<close> does, to the floor
  of the quotient plus one half, which is \<open>(200 * current + total) div (2 * total)\<close>.
  Current and total are whole numbers, as the extractor reads them from digits.
\<close>

definition calculateProgress :: "int \<Rightarrow> int \<Rightarrow> int" where
  "calculateProgress cur tot =
     (if tot = 0 then 0
      else max 0 (min 100 ((200 * cur + tot) div (2 * tot))))"

section \<open>Progress entities and the campaign\<close>

text \<open>
  Modelled from the spec: one step of \<open>mergeClocks\<close>, \<open>mergeTracks\<close> and
  \<open>mergeEvents\<close> of the missing \<open>ProgressParser\<close>. One record per identity key;
  a later mention overwrites current and total, and its locations are appended.
\<close>

definition mergeClock :: "(string \<times> Clock) list \<Rightarrow> Clock \<Rightarrow> (string \<times> Clock) list" where
  "mergeClock merged clock =
     (case map_of merged (pid clock) of
        Some existing \<Rightarrow>
          AList.update (pid clock)
            (existing\<lparr>progressLocations := progressLocations existing @ progressLocations clock,
                      current := current clock, total := total clock\<rparr>) merged
      | None \<Rightarrow> AList.update (pid clock) clock merged)"

text \<open>Modelled from the spec: \<open>mergeClocks\<close> of the missing \<open>ProgressParser\<close>.\<close>

definition mergeClocks :: "Clock list \<Rightarrow> (string \<times> Clock) list" where
  "mergeClocks cs = foldl mergeClock [] cs"

text \<open>Modelled from the spec: \<open>mergeTracks\<close> of the missing \<open>ProgressParser\<close>.\<close>

definition mergeTracks :: "Track list \<Rightarrow> (string \<times> Track) list" where
  "mergeTracks cs = foldl mergeClock [] cs"

text \<open>Modelled from the spec: \<open>mergeEvents\<close> of the missing \<open>ProgressParser\<close>.\<close>

definition mergeEvents :: "Event list \<Rightarrow> (string \<times> Event) list" where
  "mergeEvents cs = foldl mergeClock [] cs"

text \<open>
  Modelled from the spec: one step of \<open>mergeTimers\<close> of the missing
  \<open>ProgressParser\<close>: a later mention overwrites the value, and its locations are
  appended.
\<close>

definition mergeTimer :: "(string \<times> Timer) list \<Rightarrow> Timer \<Rightarrow> (string \<times> Timer) list" where
  "mergeTimer merged timer =
     (case map_of merged (pid timer) of
        Some existing \<Rightarrow>
          AList.update (pid timer)
            (existing\<lparr>progressLocations := progressLocations existing @ progressLocations timer,
                      timerValue := timerValue timer\<rparr>) merged
      | None \<Rightarrow> AList.update (pid timer) timer merged)"

text \<open>Modelled from the spec: \<open>mergeTimers\<close> of the missing \<open>ProgressParser\<close>.\<close>

definition mergeTimers :: "Timer list \<Rightarrow> (string \<times> Timer) list" where
  "mergeTimers ts = foldl mergeTimer [] ts"

text \<open>
  The campaign object of \<open>parseCampaignFile\<close>, without \<open>title\<close> and
  \<open>frontMatter\<close>, which come from the YAML parser of the host application.
\<close>

record Campaign =
  campaignFile :: string
  campaignSessions :: "Session list"
  campaignNPCs :: "(string \<times> NPC) list"
  campaignLocations :: "(string \<times> LocationTag) list"
  campaignThreads :: "(string \<times> Thread) list"
  campaignClocks :: "(string \<times> Clock) list"
  campaignTracks :: "(string \<times> Track) list"
  campaignTimers :: "(string \<times> Timer) list"
  campaignEvents :: "(string \<times> Event) list"
  campaignPlayerCharacters :: "(string \<times> PlayerCharacter) list"
  campaignReferences :: "(string \<times> Reference) list"

text \<open>The part of \<open>parseCampaignFile\<close> that follows the parsing of the sessions.\<close>

definition buildCampaign :: "TagExtractor \<Rightarrow> Session list \<Rightarrow> string \<Rightarrow> Campaign" where
  "buildCampaign tagExtractor sessions path =
     (let allTags = collectAllTags tagExtractor sessions path
      in \<lparr>campaignFile = path,
          campaignSessions = sessions,
          campaignNPCs = mergeNPCs (npcs allTags),
          campaignLocations = mergeLocations (locations allTags),
          campaignThreads = mergeThreads (threads allTags),
          campaignClocks = mergeClocks (clocks allTags),
          campaignTracks = mergeTracks (tracks allTags),
          campaignTimers = mergeTimers (timers allTags),
          campaignEvents = mergeEvents (events allTags),
          campaignPlayerCharacters = mergePlayerCharacters (playerCharacters allTags),
          campaignReferences = mergeReferences (references allTags)\<rparr>)"

text \<open>A session and a scene with the given elements, for the examples.\<close>

definition sceneOf :: "string \<Rightarrow> NotationElement list \<Rightarrow> Scene" where
  "sceneOf i els = \<lparr>sceneId = i, sceneNumber = i, sceneContext = None,
     sceneStartLine = 0, sceneEndLine = 0, elements = els\<rparr>"

definition sessionOf :: "nat \<Rightarrow> Scene list \<Rightarrow> Session" where
  "sessionOf n scs = \<lparr>number = n, date = None, duration = None, recap = None, goals = None,
     scenes = scs, startLine = 0, endLine = 0, metadata = [], linkedFile = None\<rparr>"

section \<open>Scenes\<close>

text \<open>The line feed, on which the parser splits a document into lines.\<close>

definition newline :: char where
  "newline = CHR 0x0A"

text \<open>
  The state of the loop of \<open>parseSceneContent\<close>: the elements so far and the
  three loop variables.
\<close>

record SceneScan =
  scanned :: "NotationElement list"
  inCodeBlock :: bool
  codeBlockContent :: "string list"
  codeBlockStartLine :: nat

text \<open>
  The class \<open>CodeBlockParser\<close> is not among the sources; its method
  \<open>parseCodeBlock\<close>, which takes the text of a block and the line where it
  starts, is the parameter \<open>parseCodeBlock\<close> of the functions below.
\<close>

type_synonym CodeBlockParser = "string \<Rightarrow> nat \<Rightarrow> NotationElement list"

text \<open>One iteration of the loop of \<open>parseSceneContent\<close>, for line \<open>i\<close>.\<close>

definition sceneLine :: "CodeBlockParser \<Rightarrow> nat \<Rightarrow> nat \<Rightarrow> SceneScan \<Rightarrow> string \<Rightarrow> SceneScan" where
  "sceneLine parseCodeBlock baseLineNumber i st line =
     (if trim line = ''```'' then
        (if inCodeBlock st then
           st\<lparr>scanned := scanned st @
                  parseCodeBlock (joinWith newline (codeBlockContent st))
                    (baseLineNumber + codeBlockStartLine st),
              codeBlockContent := [],
              inCodeBlock := False\<rparr>
         else st\<lparr>inCodeBlock := True, codeBlockStartLine := i + 1\<rparr>)
      else if inCodeBlock st then st\<lparr>codeBlockContent := codeBlockContent st @ [line]\<rparr>
      else st)"

fun sceneLoop :: "CodeBlockParser \<Rightarrow> nat \<Rightarrow> string list \<Rightarrow> nat \<Rightarrow> SceneScan \<Rightarrow> SceneScan" where
  "sceneLoop parseCodeBlock baseLineNumber [] i st = st"
| "sceneLoop parseCodeBlock baseLineNumber (line # rest) i st =
     sceneLoop parseCodeBlock baseLineNumber rest (i + 1)
       (sceneLine parseCodeBlock baseLineNumber i st line)"

definition sceneStart :: SceneScan where
  "sceneStart = \<lparr>scanned = [], inCodeBlock = False, codeBlockContent = [], codeBlockStartLine = 0\<rparr>"

definition parseSceneContent ::
  "CodeBlockParser \<Rightarrow> string \<Rightarrow> string \<Rightarrow> nat \<Rightarrow> NotationElement list" where
  "parseSceneContent parseCodeBlock content path baseLineNumber =
     scanned (sceneLoop parseCodeBlock baseLineNumber (splitOn newline content) 0 sceneStart)"

text \<open>The character classes \<open>\w\<close> and \<open>[\w.-]\<close> of the scene header pattern.\<close>

definition isWordChar :: "char \<Rightarrow> bool" where
  "isWordChar c =
     (let n = (of_char c :: nat)
      in (48 \<le> n \<and> n \<le> 57) \<or> (65 \<le> n \<and> n \<le> 90) \<or> (97 \<le> n \<and> n \<le> 122) \<or> n = 95)"

definition isSceneChar :: "char \<Rightarrow> bool" where
  "isSceneChar c = (isWordChar c \<or> c = CHR ''.'' \<or> c = CHR ''-'')"

text \<open>
  The scene header pattern \<open>^###\s+(S[\w.-]+|\w+-S[\w.-]+)\s*\*?([^*]*)\*?\<close>: the
  two groups of its match. Every repetition is greedy, and what follows a group
  always matches, so the first alternative that fits decides the match.
\<close>

definition matchSceneHeader :: "string \<Rightarrow> (string \<times> string) option" where
  "matchSceneHeader line =
     (if \<not> isPrefixOf ''###'' line \<or> takeWhile isSpace (drop 3 line) = [] then None
      else
        (let r = dropWhile isSpace (drop 3 line);
             w = takeWhile isWordChar r;
             a = dropWhile isWordChar r;
             number =
               (if isPrefixOf ''S'' r \<and> takeWhile isSceneChar (drop 1 r) \<noteq> []
                then Some (''S'' @ takeWhile isSceneChar (drop 1 r))
                else if w \<noteq> [] \<and> isPrefixOf ''-S'' a \<and> takeWhile isSceneChar (drop 2 a) \<noteq> []
                then Some (w @ ''-S'' @ takeWhile isSceneChar (drop 2 a))
                else None)
         in case number of
              None \<Rightarrow> None
            | Some n \<Rightarrow>
                (let t = dropWhile isSpace (drop (length n) r);
                     u = (if isPrefixOf ''*'' t then drop 1 t else t)
                 in Some (n, takeWhile (\<lambda>x. x \<noteq> CHR ''*'') u))))"

text \<open>The state of the loop of \<open>parseScenes\<close>.\<close>

record ScenesScan =
  scenesDone :: "Scene list"
  currentScene :: "Scene option"
  currentSceneContent :: "string list"
  sceneStartLine :: nat

text \<open>The scene that is open, if any, gets its elements and its last line and is pushed.\<close>

definition closeScene ::
  "CodeBlockParser \<Rightarrow> string \<Rightarrow> nat \<Rightarrow> nat \<Rightarrow> ScenesScan \<Rightarrow> Scene list" where
  "closeScene parseCodeBlock path baseLineNumber lastLine st =
     (case currentScene st of
        None \<Rightarrow> scenesDone st
      | Some sc \<Rightarrow>
          scenesDone st @
            [sc\<lparr>elements := parseSceneContent parseCodeBlock
                   (joinWith newline (currentSceneContent st)) path
                   (baseLineNumber + sceneStartLine st),
                sceneEndLine := lastLine\<rparr>])"

definition scenesLine ::
  "CodeBlockParser \<Rightarrow> string \<Rightarrow> nat \<Rightarrow> nat \<Rightarrow> ScenesScan \<Rightarrow> string \<Rightarrow> ScenesScan" where
  "scenesLine parseCodeBlock path baseLineNumber i st line =
     (case matchSceneHeader line of
        Some (sceneNo, ctx) \<Rightarrow>
          \<lparr>scenesDone = closeScene parseCodeBlock path baseLineNumber (baseLineNumber + i - 1) st,
           currentScene = Some
             \<lparr>sceneId = sceneNo, sceneNumber = sceneNo,
              sceneContext = (if trim ctx = [] then None else Some (trim ctx)),
              sceneStartLine = baseLineNumber + i, sceneEndLine = baseLineNumber + i,
              elements = []\<rparr>,
           currentSceneContent = [],
           sceneStartLine = i\<rparr>
      | None \<Rightarrow>
          (if currentScene st \<noteq> None
           then st\<lparr>currentSceneContent := currentSceneContent st @ [line]\<rparr>
           else st))"

fun scenesLoop ::
  "CodeBlockParser \<Rightarrow> string \<Rightarrow> nat \<Rightarrow> string list \<Rightarrow> nat \<Rightarrow> ScenesScan \<Rightarrow> ScenesScan" where
  "scenesLoop parseCodeBlock path baseLineNumber [] i st = st"
| "scenesLoop parseCodeBlock path baseLineNumber (line # rest) i st =
     scenesLoop parseCodeBlock path baseLineNumber rest (i + 1)
       (scenesLine parseCodeBlock path baseLineNumber i st line)"

definition parseScenes :: "CodeBlockParser \<Rightarrow> string \<Rightarrow> string \<Rightarrow> nat \<Rightarrow> Scene list" where
  "parseScenes parseCodeBlock content path baseLineNumber =
     (let lines = splitOn newline content
      in closeScene parseCodeBlock path baseLineNumber (baseLineNumber + length lines - 1)
           (scenesLoop parseCodeBlock path baseLineNumber lines 0
              \<lparr>scenesDone = [], currentScene = None, currentSceneContent = [],
               sceneStartLine = 0\<rparr>))"

section \<open>Sessions\<close>

text \<open>
  \<open>parseSessionMetadata\<close>. The pattern \<open>\*([^*]+)\*\<close> takes the leftmost star
  that is followed by at least one character other than a star and then a star.
\<close>

fun findStarred :: "string \<Rightarrow> string option" where
  "findStarred [] = None"
| "findStarred (c # cs) =
     (if c = CHR ''*'' \<and> takeWhile (\<lambda>x. x \<noteq> CHR ''*'') cs \<noteq> []
         \<and> dropWhile (\<lambda>x. x \<noteq> CHR ''*'') cs \<noteq> []
      then Some (takeWhile (\<lambda>x. x \<noteq> CHR ''*'') cs)
      else findStarred cs)"

text \<open>
  One \<open>key: value\<close> pair of the metadata line: the first two pieces between
  colons, trimmed, stored when neither is empty.
\<close>

definition metadataPair :: "(string \<times> string) list \<Rightarrow> string \<Rightarrow> (string \<times> string) list" where
  "metadataPair md pair =
     (let pieces = map trim (splitOn CHR '':'' pair)
      in if length pieces \<ge> 2 \<and> pieces ! 0 \<noteq> [] \<and> pieces ! 1 \<noteq> []
         then AList.update (pieces ! 0) (pieces ! 1) md
         else md)"

definition parseSessionMetadata :: "string \<Rightarrow> (string \<times> string) list" where
  "parseSessionMetadata line =
     (case findStarred line of
        None \<Rightarrow> []
      | Some inner \<Rightarrow> foldl metadataPair [] (splitOn CHR ''|'' inner))"

text \<open>
  The tail \<open>\s+(\d+)\<close> of both session patterns: white space, then digits; the
  value is the number that \<open>parseInt\<close> reads from the digits.
\<close>

definition spaceDigits :: "string \<Rightarrow> nat option" where
  "spaceDigits r =
     (if takeWhile isSpace r \<noteq> [] \<and> takeWhile isDigit (dropWhile isSpace r) \<noteq> []
      then Some (parseDigits (takeWhile isDigit (dropWhile isSpace r)))
      else None)"

text \<open>
  \<open>Session\<close> or \<open>Sessione\<close>, in any letter case, then \<open>\s+(\d+)\<close>, at the start
  of \<open>r\<close>: the shorter word is tried first and the longer one when the tail
  does not follow it.
\<close>

definition sessionWord :: "string \<Rightarrow> nat option" where
  "sessionWord r =
     (if toLowerCase (take 7 r) = ''session'' then
        (case spaceDigits (drop 7 r) of
           Some n \<Rightarrow> Some n
         | None \<Rightarrow>
             (if toLowerCase (take 1 (drop 7 r)) = ''e'' then spaceDigits (drop 8 r) else None))
      else None)"

text \<open>The inline session header \<open>^##\s+Sessione?\s+(\d+)\<close>, ignoring case.\<close>

definition matchSessionHeader :: "string \<Rightarrow> nat option" where
  "matchSessionHeader line =
     (if isPrefixOf ''##'' line \<and> takeWhile isSpace (drop 2 line) \<noteq> []
      then
        (let r = dropWhile isSpace (drop 2 line)
         in if toLowerCase (take 7 r) = ''session'' then
              (if toLowerCase (take 1 (drop 7 r)) = ''e'' then
                 (case spaceDigits (drop 8 r) of
                    Some n \<Rightarrow> Some n
                  | None \<Rightarrow> spaceDigits (drop 7 r))
               else spaceDigits (drop 7 r))
            else None)
      else None)"

text \<open>
  \<open>sessionPattern.exec\<close> for \<open>(?:^|\/)(Session|Sessione)\s+(\d+)\<close>, ignoring
  case: the leftmost match, at the start of the text or after a slash.
\<close>

fun sessionAfterSlash :: "string \<Rightarrow> nat option" where
  "sessionAfterSlash [] = None"
| "sessionAfterSlash (c # cs) =
     (if c = CHR ''/'' then
        (case sessionWord cs of Some n \<Rightarrow> Some n | None \<Rightarrow> sessionAfterSlash cs)
      else sessionAfterSlash cs)"

definition sessionPattern :: "string \<Rightarrow> nat option" where
  "sessionPattern s =
     (case sessionWord s of Some n \<Rightarrow> Some n | None \<Rightarrow> sessionAfterSlash s)"

text \<open>
  The matches of \<open>\[\[([^\]]+)\]\]\<close> in one line, from left to right: the text
  between the double brackets.
\<close>

function wikilinks :: "string \<Rightarrow> string list" where
  "wikilinks [] = []"
| "wikilinks (c # cs) =
     (if isPrefixOf ''[['' (c # cs)
         \<and> takeWhile (\<lambda>x. x \<noteq> CHR '']'') (drop 1 cs) \<noteq> []
         \<and> isPrefixOf '']]'' (dropWhile (\<lambda>x. x \<noteq> CHR '']'') (drop 1 cs))
      then takeWhile (\<lambda>x. x \<noteq> CHR '']'') (drop 1 cs)
           # wikilinks (drop 2 (dropWhile (\<lambda>x. x \<noteq> CHR '']'') (drop 1 cs)))
      else wikilinks cs)"
  by pat_completeness auto
termination
proof (relation "measure length")
  fix c :: char and cs :: string
  have "length (drop 2 (dropWhile (\<lambda>x. x \<noteq> CHR '']'') (drop 1 cs)))
      \<le> length (dropWhile (\<lambda>x. x \<noteq> CHR '']'') (drop 1 cs))"
    by simp
  also have "\<dots> \<le> length (drop 1 cs)"
    by (rule length_dropWhile_le)
  also have "\<dots> \<le> length cs"
    by simp
  finally show "(drop 2 (dropWhile (\<lambda>x. x \<noteq> CHR '']'') (drop 1 cs)), c # cs) \<in> measure length"
    by simp
qed simp_all

text \<open>
  The two services of the host application that the parser uses: the metadata
  cache resolves a link path, seen from a file, to the path of a file, and the
  vault reads the file at a path. \<open>None\<close> stands for a link that does not
  resolve, and for a path that is no file or whose read fails.
\<close>

record App =
  getFirstLinkpathDest :: "string \<Rightarrow> string \<Rightarrow> string option"
  vaultRead :: "string \<Rightarrow> string option"

record SessionLink =
  linkLineNumber :: nat
  sessionNumber :: nat
  linkText :: string
  linkedFilePath :: "string option"

text \<open>The body of the loop over the links of line \<open>i\<close> in \<open>extractSessionLinks\<close>.\<close>

definition sessionLinkOf :: "App option \<Rightarrow> string \<Rightarrow> nat \<Rightarrow> string \<Rightarrow> SessionLink option" where
  "sessionLinkOf app basePath i linkContent =
     (let pipeIndex = indexOf linkContent CHR ''|'';
          linkPath = (if pipeIndex \<noteq> - 1 then sliceTo linkContent pipeIndex else linkContent);
          linkAlias = (if pipeIndex \<noteq> - 1 then Some (sliceFrom linkContent (nat pipeIndex + 1))
                       else None);
          pathMatch = sessionPattern linkPath;
          aliasMatch = (case linkAlias of
                          None \<Rightarrow> None
                        | Some a \<Rightarrow> if a = [] then None else sessionPattern a)
      in case (if pathMatch \<noteq> None then pathMatch else aliasMatch) of
           None \<Rightarrow> None
         | Some n \<Rightarrow>
             Some \<lparr>linkLineNumber = i, sessionNumber = n,
                   linkText = ''[['' @ linkContent @ '']]'',
                   linkedFilePath =
                     (case app of
                        None \<Rightarrow> None
                      | Some a \<Rightarrow> getFirstLinkpathDest a linkPath basePath)\<rparr>)"

definition extractSessionLinks :: "App option \<Rightarrow> string \<Rightarrow> string \<Rightarrow> SessionLink list" where
  "extractSessionLinks app content basePath =
     (let lines = splitOn newline content
      in concat (map (\<lambda>i. List.map_filter (sessionLinkOf app basePath i) (wikilinks (lines ! i)))
                  [0..<length lines]))"

text \<open>
  The patterns \<open>^\*\*Recap:\*\*\s*(.+)$\<close> and \<open>^\*\*Goals:\*\*\s*(.+)$\<close>, ignoring
  case: the group after the label. The dot matches no line terminator, so the
  rest of the line must be free of them.
\<close>

definition isLineTerminator :: "char \<Rightarrow> bool" where
  "isLineTerminator c = (of_char c \<in> {10, 13 :: nat})"

definition matchLabelled :: "string \<Rightarrow> string \<Rightarrow> string option" where
  "matchLabelled label line =
     (if toLowerCase (take (length label) line) = label then
        (let rest = drop (length label) line; b = dropWhile isSpace rest
         in if b \<noteq> [] then (if \<exists>c\<in>set b. isLineTerminator c then None else Some b)
            else if rest \<noteq> [] \<and> \<not> isLineTerminator (last rest) then Some [last rest]
            else None)
      else None)"

definition labelledLine :: "(string \<times> string) list \<Rightarrow> string \<Rightarrow> (string \<times> string) list" where
  "labelledLine md line =
     (let m1 = (case matchLabelled ''**recap:**'' line of
                  Some v \<Rightarrow> AList.update ''Recap'' (trim v) md
                | None \<Rightarrow> md)
      in case matchLabelled ''**goals:**'' line of
           Some v \<Rightarrow> AList.update ''Goals'' (trim v) m1
         | None \<Rightarrow> m1)"

text \<open>\<open>parseSessionFile\<close>: the session of a linked note, or \<open>None\<close> for \<open>null\<close>.\<close>

definition parseSessionFile ::
  "App option \<Rightarrow> CodeBlockParser \<Rightarrow> string \<Rightarrow> nat \<Rightarrow> Session option" where
  "parseSessionFile app parseCodeBlock path sessionNo =
     (case app of
        None \<Rightarrow> None
      | Some a \<Rightarrow>
          (case vaultRead a path of
             None \<Rightarrow> None
           | Some content \<Rightarrow>
               (let lines = splitOn newline content;
                    md = foldl labelledLine (parseSessionMetadata (hd lines)) lines
                in Some \<lparr>number = sessionNo,
                     date = map_of md ''Date'', duration = map_of md ''Duration'',
                     recap = map_of md ''Recap'', goals = map_of md ''Goals'',
                     scenes = parseScenes parseCodeBlock content path 0,
                     startLine = 0, endLine = length lines - 1,
                     metadata = md, linkedFile = Some path\<rparr>)))"

text \<open>The state of the loop of \<open>parseSessions\<close>.\<close>

record SessionsScan =
  sessionsDone :: "Session list"
  currentSession :: "Session option"
  currentSessionContent :: "string list"
  sessionStartLine :: nat

text \<open>The inline session that is open, if any, gets its scenes and its last line and is pushed.\<close>

definition closeSession :: "CodeBlockParser \<Rightarrow> string \<Rightarrow> nat \<Rightarrow> SessionsScan \<Rightarrow> Session list" where
  "closeSession parseCodeBlock path lastLine st =
     (case currentSession st of
        None \<Rightarrow> sessionsDone st
      | Some s \<Rightarrow>
          sessionsDone st @
            [s\<lparr>scenes := parseScenes parseCodeBlock
                  (joinWith newline (currentSessionContent st)) path (sessionStartLine st),
               endLine := lastLine\<rparr>])"

text \<open>
  One iteration of the \<open>while\<close> loop of \<open>parseSessions\<close>; every branch moves to
  the next line, so the loop visits the lines in order.
\<close>

definition sessionsLine ::
  "App option \<Rightarrow> CodeBlockParser \<Rightarrow> string \<Rightarrow> string list \<Rightarrow> SessionLink list \<Rightarrow>
   SessionsScan \<Rightarrow> nat \<Rightarrow> SessionsScan" where
  "sessionsLine app parseCodeBlock path lines sessionLinks st currentLineNumber =
     (let line = lines ! currentLineNumber;
          sessionMatch = matchSessionHeader line;
          linkMatch = (if currentSession st = None
                       then find (\<lambda>l. linkLineNumber l = currentLineNumber) sessionLinks
                       else None)
      in case sessionMatch of
           Some sessionNo \<Rightarrow>
             (let md = parseSessionMetadata
                         (if currentLineNumber + 1 < length lines
                          then lines ! (currentLineNumber + 1) else [])
              in \<lparr>sessionsDone = closeSession parseCodeBlock path (currentLineNumber - 1) st,
                  currentSession = Some
                    \<lparr>number = sessionNo,
                     date = map_of md ''Date'', duration = map_of md ''Duration'',
                     recap = map_of md ''Recap'', goals = map_of md ''Goals'',
                     scenes = [], startLine = currentLineNumber, endLine = currentLineNumber,
                     metadata = md, linkedFile = None\<rparr>,
                  currentSessionContent = [],
                  sessionStartLine = currentLineNumber\<rparr>)
         | None \<Rightarrow>
             (case linkMatch of
                Some l \<Rightarrow>
                  (case linkedFilePath l of
                     None \<Rightarrow> st
                   | Some p \<Rightarrow>
                       if p = [] then st
                       else
                         (case parseSessionFile app parseCodeBlock p (sessionNumber l) of
                            None \<Rightarrow> st
                          | Some linked \<Rightarrow>
                              st\<lparr>sessionsDone := sessionsDone st @
                                   [linked\<lparr>startLine := linkLineNumber l,
                                           endLine := linkLineNumber l\<rparr>]\<rparr>))
              | None \<Rightarrow>
                  (if currentSession st \<noteq> None
                   then st\<lparr>currentSessionContent := currentSessionContent st @ [line]\<rparr>
                   else st)))"

text \<open>
  \<open>parseSessions\<close>. \<open>Array.prototype.sort\<close> with the comparator
  \<open>a.number - b.number\<close> is a stable sort by number, as \<open>sort_key\<close> is.
\<close>

definition parseSessions ::
  "App option \<Rightarrow> CodeBlockParser \<Rightarrow> string \<Rightarrow> string \<Rightarrow> Session list" where
  "parseSessions app parseCodeBlock content path =
     (let lines = splitOn newline content;
          sessionLinks = extractSessionLinks app content path;
          st = foldl (sessionsLine app parseCodeBlock path lines sessionLinks)
                 \<lparr>sessionsDone = [], currentSession = None, currentSessionContent = [],
                  sessionStartLine = 0\<rparr>
                 [0..<length lines]
      in sort_key number (closeSession parseCodeBlock path (length lines - 1) st))"

text \<open>\<open>parseCampaignFile\<close>, with the tag extractor and the code block parser as parameters.\<close>

definition parseCampaignFile ::
  "App option \<Rightarrow> TagExtractor \<Rightarrow> CodeBlockParser \<Rightarrow> string \<Rightarrow> string \<Rightarrow> Campaign" where
  "parseCampaignFile app tagExtractor parseCodeBlock content path =
     buildCampaign tagExtractor (parseSessions app parseCodeBlock content path) path"

text \<open>
  A host application for the examples: every link path resolves to the note of
  that name, and every note holds one scene heading.
\<close>

definition exampleApp :: App where
  "exampleApp =
     \<lparr>getFirstLinkpathDest = (\<lambda>linkpath sourcePath. Some (linkpath @ ''.md'')),
      vaultRead = (\<lambda>path. Some ''### S1'')\<rparr>"

text \<open>
  The invariant of the loop of \<open>parseSessions\<close> after the lines below \<open>k\<close>: no
  inline session is open exactly when no line so far is a session header; every
  linked session pushed so far stands on a line with no session header on it or
  above it; and the open session is an inline one.
\<close>

definition sessionsInv :: "string list \<Rightarrow> nat \<Rightarrow> SessionsScan \<Rightarrow> bool" where
  "sessionsInv lines k st \<longleftrightarrow>
     (currentSession st = None \<longleftrightarrow> (\<forall>j<k. matchSessionHeader (lines ! j) = None))
     \<and> (\<forall>s\<in>set (sessionsDone st). linkedFile s \<noteq> None \<longrightarrow>
           (\<forall>j\<le>startLine s. matchSessionHeader (lines ! j) = None))
     \<and> (\<forall>c. currentSession st = Some c \<longrightarrow> linkedFile c = None)"

section \<open>Properties of the merge engine\<close>

subsection \<open>Tag keys and the tag diff\<close>

lemma indexOf_notin: "c \<notin> set s \<Longrightarrow> indexOf s c = - 1"
  by (induction s) (auto simp: Let_def)

lemma indexOf_in: "c \<in> set s \<Longrightarrow> indexOf s c = int (length (takeWhile (\<lambda>x. x \<noteq> c) s))"
  by (induction s) (auto simp: Let_def indexOf_notin)

lemma getTagKey_takeWhile: "getTagKey tag = takeWhile (\<lambda>x. x \<noteq> CHR ''='') tag"
proof (cases "CHR ''='' \<in> set tag")
  case True
  then have "getTagKey tag = take (length (takeWhile (\<lambda>x. x \<noteq> CHR ''='') tag)) tag"
    by (simp add: getTagKey_def Let_def sliceTo_def indexOf_in)
  then show ?thesis
    by (simp add: takeWhile_eq_take [symmetric])
next
  case False
  then have "\<forall>x\<in>set tag. x \<noteq> CHR ''=''" by auto
  then have "takeWhile (\<lambda>x. x \<noteq> CHR ''='') tag = tag"
    by (rule takeWhile_eq_all_conv [THEN iffD2])
  moreover from False have "getTagKey tag = tag"
    by (simp add: getTagKey_def Let_def indexOf_notin)
  ultimately show ?thesis by (simp only:)
qed

lemma getTagKey_eq_iff: "getTagKey tag = tag \<longleftrightarrow> CHR ''='' \<notin> set tag"
  by (auto simp: getTagKey_takeWhile takeWhile_eq_all_conv)

lemma mergeTag_tagDiff: "mergeTag ts tag = tagDiff ts tag"
proof -
  have r: "filter (\<lambda>t. t \<noteq> x) ts = removeAll x ts" for x
    by (induction ts) auto
  have k: "CHR ''='' \<in> set tag \<Longrightarrow> tag \<notin> set (filter (\<lambda>t. getTagKey t \<noteq> getTagKey tag) ts)"
    by simp
  show ?thesis
    using k by (cases tag)
      (auto simp: mergeTag_def tagDiff_def startsWith_def sliceFrom_def Let_def r
        getTagKey_eq_iff getTagKey_takeWhile)
qed

lemma distinct_mergeTag: "distinct ts \<Longrightarrow> distinct (mergeTag ts tag)"
  by (auto simp: mergeTag_def Let_def)

lemma distinct_foldl_mergeTag: "distinct ts \<Longrightarrow> distinct (foldl mergeTag ts new)"
  by (induction new arbitrary: ts) (auto simp: distinct_mergeTag)

lemma mergeNPCs_snoc: "mergeNPCs (ns @ [npc]) = mergeNPC (mergeNPCs ns) npc"
  by (simp add: mergeNPCs_def)


lemma mergeNPC_existing:
  "map_of merged (eid m) = Some e \<Longrightarrow>
   map_of (mergeNPC merged m) (eid m) =
     Some (e\<lparr>tags := foldl tagDiff (tags e) (tags m), mentions := mentions e @ mentions m\<rparr>)"
proof -
  have "mergeTag = tagDiff" by (intro ext) (rule mergeTag_tagDiff)
  then show "map_of merged (eid m) = Some e \<Longrightarrow> ?thesis"
    by (simp add: mergeNPC_def update_conv')
qed

lemma mergeLocation_eq: "mergeLocation = mergeNPC"
  by (intro ext) (simp add: mergeLocation_def mergeNPC_def)

lemma mergePlayerCharacter_eq: "mergePlayerCharacter = mergeNPC"
  by (intro ext) (simp add: mergePlayerCharacter_def mergeNPC_def)

lemma mergeLocations_eq: "mergeLocations = mergeNPCs"
  by (intro ext) (simp add: mergeLocations_def mergeNPCs_def mergeLocation_eq)

lemma mergePlayerCharacters_eq: "mergePlayerCharacters = mergeNPCs"
  by (intro ext) (simp add: mergePlayerCharacters_def mergeNPCs_def mergePlayerCharacter_eq)


text \<open>
  Claim C1, as amended. When a key of \<open>mergeNPCs\<close>, \<open>mergeLocations\<close> or
  \<open>mergePlayerCharacters\<close> already has a canonical record \<open>e\<close>, merging one more
  mention \<open>m\<close> of that key replaces the tag list by the three-rule diff of
  \<open>tagDiff\<close>, applied to the tags of \<open>m\<close> from left to right, and appends the
  mentions of \<open>m\<close> to the mentions of \<open>e\<close>. The diff adds no duplicate: a tag
  list without duplicates stays without duplicates.
\<close>

theorem tag_diff_merge:
  assumes "merge \<in> {mergeNPCs, mergeLocations, mergePlayerCharacters}"
    and "map_of (merge ms) (eid m) = Some e"
  shows "map_of (merge (ms @ [m])) (eid m) =
           Some (e\<lparr>tags := foldl tagDiff (tags e) (tags m),
                   mentions := mentions e @ mentions m\<rparr>)
         \<and> (distinct (tags e) \<longrightarrow> distinct (foldl tagDiff (tags e) (tags m)))"
proof -
  have eq: "merge = mergeNPCs"
    using assms(1) by (auto simp: mergeLocations_eq mergePlayerCharacters_eq)
  have td: "mergeTag = tagDiff" by (intro ext) (rule mergeTag_tagDiff)
  have "map_of (mergeNPC (mergeNPCs ms) m) (eid m) =
      Some (e\<lparr>tags := foldl tagDiff (tags e) (tags m), mentions := mentions e @ mentions m\<rparr>)"
    using assms(2) unfolding eq by (rule mergeNPC_existing)
  moreover have "distinct (tags e) \<Longrightarrow> distinct (foldl tagDiff (tags e) (tags m))"
    using distinct_foldl_mergeTag [of "tags e" "tags m"] by (simp add: td)
  ultimately show ?thesis
    by (simp add: eq mergeNPCs_snoc)
qed


theorem tag_diff_merge_witness:
  "mergeNPCs \<in> {mergeNPCs, mergeLocations, mergePlayerCharacters}
   \<and> map_of (mergeNPCs [npcAt ''npc:jonah'' ''Jonah'' [''friendly'', ''hp=3''] (lineLoc 3)])
        (eid (npcAt ''npc:jonah'' ''Jonah'' [''-friendly'', ''captured'', ''hp=4''] (lineLoc 7)))
       = Some (npcAt ''npc:jonah'' ''Jonah'' [''friendly'', ''hp=3''] (lineLoc 3))
   \<and> map_of (mergeNPCs ([npcAt ''npc:jonah'' ''Jonah'' [''friendly'', ''hp=3''] (lineLoc 3)]
        @ [npcAt ''npc:jonah'' ''Jonah'' [''-friendly'', ''captured'', ''hp=4''] (lineLoc 7)]))
        ''npc:jonah''
       = Some \<lparr>eid = ''npc:jonah'', name = ''Jonah'', firstMention = lineLoc 3,
               mentions = [lineLoc 3, lineLoc 7], tags = [''captured'', ''hp=4'']\<rparr>"
  using tag_diff_merge [of mergeNPCs
      "[npcAt ''npc:jonah'' ''Jonah'' [''friendly'', ''hp=3''] (lineLoc 3)]"
      "npcAt ''npc:jonah'' ''Jonah'' [''-friendly'', ''captured'', ''hp=4''] (lineLoc 7)"
      "npcAt ''npc:jonah'' ''Jonah'' [''friendly'', ''hp=3''] (lineLoc 3)"]
  by (simp add: mergeNPCs_def mergeNPC_def npcAt_def tagDiff_def)

text \<open>
  The claim as stated says that the list never contains duplicates. The first
  mention is stored as it comes, so a duplicate in its tags stays in the list
  when a later mention is merged.
\<close>

theorem tag_diff_merge_counterexample:
  "map_of (mergeNPCs [npcAt ''npc:x'' ''X'' [''a'', ''a''] (lineLoc 1),
                      npcAt ''npc:x'' ''X'' [''b''] (lineLoc 2)]) ''npc:x''
     = Some \<lparr>eid = ''npc:x'', name = ''X'', firstMention = lineLoc 1,
             mentions = [lineLoc 1, lineLoc 2], tags = [''a'', ''a'', ''b'']\<rparr>
   \<and> \<not> distinct [''a'', ''a'', ''b'']"
  by (simp add: mergeNPCs_def mergeNPC_def npcAt_def mergeTag_def startsWith_def
      getTagKey_def sliceTo_def Let_def)

subsection \<open>Repeated mentions\<close>

lemma foldl_mergeTag_noop:
  "\<forall>t\<in>set new. (startsWith t CHR ''-'' \<and> sliceFrom t 1 \<notin> set L)
       \<or> (\<not> startsWith t CHR ''-'' \<and> CHR ''='' \<notin> set t \<and> t \<in> set L) \<Longrightarrow>
   foldl mergeTag L new = L"
proof (induction new)
  case Nil
  then show ?case by simp
next
  case (Cons t new)
  then have "mergeTag L t = L"
    by (auto simp: mergeTag_def Let_def getTagKey_eq_iff filter_id_conv)
  with Cons show ?case by simp
qed

lemma foldl_mergeTag_keyed:
  "\<forall>t\<in>set (a @ b). \<not> startsWith t CHR ''-'' \<and> CHR ''='' \<in> set t \<Longrightarrow>
   distinct (map getTagKey (a @ b)) \<Longrightarrow>
   \<forall>q\<in>set qs. getTagKey q \<notin> getTagKey ` set (a @ b) \<Longrightarrow>
   foldl mergeTag (qs @ a @ b) a = qs @ b @ a"
proof (induction a arbitrary: b)
  case Nil
  then show ?case by simp
next
  case (Cons k a)
  have keyed: "\<not> startsWith k CHR ''-''" "getTagKey k \<noteq> k"
    using Cons.prems(1) by (simp_all add: getTagKey_eq_iff)
  have fq: "filter (\<lambda>t. getTagKey t \<noteq> getTagKey k) qs = qs"
    using Cons.prems(3) by (auto simp: filter_id_conv)
  have "\<forall>t\<in>set (a @ b). getTagKey t \<noteq> getTagKey k"
    using Cons.prems(2) by (auto simp: image_iff)
  then have fab: "filter (\<lambda>t. getTagKey t \<noteq> getTagKey k) (a @ b) = a @ b"
    by (simp only: filter_id_conv)
  have notin: "k \<notin> set (qs @ a @ b)"
    using Cons.prems(2,3) by auto
  have step: "mergeTag (qs @ (k # a) @ b) k = qs @ a @ (b @ [k])"
    using keyed fq fab notin by (simp add: mergeTag_def Let_def)
  have "foldl mergeTag (qs @ a @ (b @ [k])) a = qs @ (b @ [k]) @ a"
    using Cons.prems by (intro Cons.IH) auto
  then show ?case
    using step by simp
qed

text \<open>
  Claim C7 as stated speaks of every mention. A mention with a keyed tag before
  another tag, or with a tag and its own removal, comes out of the second merge
  with its tags reordered or dropped.
\<close>

theorem merge_twice_counterexample:
  "mergeNPCs [npcAt ''npc:grim'' ''Grim'' [''b'', ''a=1'', ''c''] (lineLoc 4),
              npcAt ''npc:grim'' ''Grim'' [''b'', ''a=1'', ''c''] (lineLoc 4)]
     = [(''npc:grim'', \<lparr>eid = ''npc:grim'', name = ''Grim'', firstMention = lineLoc 4,
           mentions = [lineLoc 4, lineLoc 4], tags = [''b'', ''c'', ''a=1'']\<rparr>)]
   \<and> [''b'', ''c'', ''a=1''] \<noteq> [''b'', ''a=1'', ''c'']
   \<and> mergeNPCs [npcAt ''npc:grim'' ''Grim'' [''ally'', ''-ally''] (lineLoc 4),
                 npcAt ''npc:grim'' ''Grim'' [''ally'', ''-ally''] (lineLoc 4)]
     = [(''npc:grim'', \<lparr>eid = ''npc:grim'', name = ''Grim'', firstMention = lineLoc 4,
           mentions = [lineLoc 4, lineLoc 4], tags = [''-ally'']\<rparr>)]"
  by (simp add: mergeNPCs_def mergeNPC_def npcAt_def mergeTag_def startsWith_def
      getTagKey_def sliceTo_def sliceFrom_def Let_def)

text \<open>
  Claim C7, as amended. Merging the same mention twice gives one record whose
  mentions are those of the mention twice over (two locations for a mention
  that carries one) and whose tags are the three-rule diff of the tags applied
  to themselves. The tags stay as they are when they are a run of unkeyed tags
  followed by a run of keyed tags (either run may be empty) such that no removal
  tag names a tag of the mention, the keyed tags have different keys, and no
  unkeyed tag has the key of a keyed tag: so for \<open>[N:Grim|friendly]\<close>, with the
  tags \<open>friendly\<close> alone.
\<close>

theorem merge_twice:
  assumes "merge \<in> {mergeNPCs, mergeLocations, mergePlayerCharacters}"
  shows "merge [m, m]
           = [(eid m, m\<lparr>tags := foldl tagDiff (tags m) (tags m),
                          mentions := mentions m @ mentions m\<rparr>)]
       \<and> (tags m = ps @ ks
          \<and> (\<forall>t\<in>set ps. startsWith t CHR ''-'' \<or> CHR ''='' \<notin> set t)
          \<and> (\<forall>t\<in>set ks. \<not> startsWith t CHR ''-'' \<and> CHR ''='' \<in> set t)
          \<and> (\<forall>t\<in>set ps. startsWith t CHR ''-'' \<longrightarrow> sliceFrom t 1 \<notin> set (tags m))
          \<and> distinct (map getTagKey ks)
          \<and> (\<forall>p\<in>set ps. getTagKey p \<notin> getTagKey ` set ks)
        \<longrightarrow> foldl tagDiff (tags m) (tags m) = tags m)"
proof (intro conjI impI)
  have eq: "merge = mergeNPCs"
    using assms(1) by (auto simp: mergeLocations_eq mergePlayerCharacters_eq)
  have td: "mergeTag = tagDiff" by (intro ext) (rule mergeTag_tagDiff)
  show "merge [m, m]
           = [(eid m, m\<lparr>tags := foldl tagDiff (tags m) (tags m),
                          mentions := mentions m @ mentions m\<rparr>)]"
    by (simp add: eq mergeNPCs_def mergeNPC_def td)
  assume h: "tags m = ps @ ks
          \<and> (\<forall>t\<in>set ps. startsWith t CHR ''-'' \<or> CHR ''='' \<notin> set t)
          \<and> (\<forall>t\<in>set ks. \<not> startsWith t CHR ''-'' \<and> CHR ''='' \<in> set t)
          \<and> (\<forall>t\<in>set ps. startsWith t CHR ''-'' \<longrightarrow> sliceFrom t 1 \<notin> set (tags m))
          \<and> distinct (map getTagKey ks)
          \<and> (\<forall>p\<in>set ps. getTagKey p \<notin> getTagKey ` set ks)"
  have "foldl mergeTag (ps @ ks) ps = ps @ ks"
    using h by (intro foldl_mergeTag_noop) auto
  moreover have "foldl mergeTag (ps @ ks @ []) ks = ps @ [] @ ks"
    using h by (intro foldl_mergeTag_keyed) auto
  ultimately have "foldl mergeTag (ps @ ks) (ps @ ks) = ps @ ks"
    by simp
  then show "foldl tagDiff (tags m) (tags m) = tags m"
    using h by (simp add: td)
qed

theorem merge_twice_witness:
  "mergeNPCs [npcAt ''npc:grim'' ''Grim'' [''friendly''] (lineLoc 4),
              npcAt ''npc:grim'' ''Grim'' [''friendly''] (lineLoc 4)]
     = [(''npc:grim'', \<lparr>eid = ''npc:grim'', name = ''Grim'', firstMention = lineLoc 4,
           mentions = [lineLoc 4, lineLoc 4], tags = [''friendly'']\<rparr>)]
   \<and> mergeNPCs [npcAt ''npc:grim'' ''Grim'' [''friendly'', ''-hostile'', ''hp=3'', ''mood=calm''] (lineLoc 4),
                 npcAt ''npc:grim'' ''Grim'' [''friendly'', ''-hostile'', ''hp=3'', ''mood=calm''] (lineLoc 4)]
     = [(''npc:grim'', \<lparr>eid = ''npc:grim'', name = ''Grim'', firstMention = lineLoc 4,
           mentions = [lineLoc 4, lineLoc 4],
           tags = [''friendly'', ''-hostile'', ''hp=3'', ''mood=calm'']\<rparr>)]"
  using merge_twice [of mergeNPCs "npcAt ''npc:grim'' ''Grim'' [''friendly''] (lineLoc 4)"
      "[''friendly'']" "[]"]
    merge_twice [of mergeNPCs
      "npcAt ''npc:grim'' ''Grim'' [''friendly'', ''-hostile'', ''hp=3'', ''mood=calm''] (lineLoc 4)"
      "[''friendly'', ''-hostile'']" "[''hp=3'', ''mood=calm'']"]
  by (simp add: npcAt_def startsWith_def sliceFrom_def getTagKey_def sliceTo_def)

subsection \<open>Threads\<close>

lemma mergeThreads_snoc: "mergeThreads (ts @ [t]) = mergeThread (mergeThreads ts) t"
  by (simp add: mergeThreads_def)

lemma mergeThreads_lookup:
  "map_of (mergeThreads thrs) k =
     (let ms = filter (\<lambda>t. eid t = k) thrs
      in if ms = [] then None
         else Some ((hd ms)\<lparr>state := state (last ms), mentions := concat (map mentions ms)\<rparr>))"
proof (induction thrs rule: rev_induct)
  case Nil
  then show ?case by (simp add: mergeThreads_def)
next
  case (snoc t thrs)
  show ?case
  proof (cases "eid t = k")
    case False
    with snoc show ?thesis
      by (simp add: mergeThreads_snoc mergeThread_def update_conv' Let_def split: option.split)
  next
    case True
    with snoc show ?thesis
      by (cases "filter (\<lambda>t. eid t = k) thrs = []")
        (simp_all add: mergeThreads_snoc mergeThread_def update_conv' Let_def)
  qed
qed


text \<open>
  Claim C4. For a key \<open>k\<close> with at least one thread mention, the canonical thread
  has the state of the last mention of \<open>k\<close> in document order, and its mentions
  are the mentions of all mentions of \<open>k\<close> in order: one location per mention
  when each mention carries one.
\<close>

theorem thread_last_write_wins:
  assumes "ms = filter (\<lambda>t. eid t = k) thrs" and "ms \<noteq> []"
  shows "\<exists>r. map_of (mergeThreads thrs) k = Some r
           \<and> state r = state (last ms)
           \<and> mentions r = concat (map mentions ms)
           \<and> ((\<forall>t\<in>set ms. length (mentions t) = 1) \<longrightarrow> length (mentions r) = length ms)"
proof -
  have "(\<forall>t\<in>set ms. length (mentions t) = 1) \<Longrightarrow> length (concat (map mentions ms)) = length ms"
    by (induction ms) auto
  then show ?thesis
    using assms by (simp add: mergeThreads_lookup Let_def)
qed


theorem thread_last_write_wins_witness:
  "[threadAt ''thread:x'' ''X'' ''Open'' (lineLoc 2), threadAt ''thread:x'' ''X'' ''Closed'' (lineLoc 9)]
     = filter (\<lambda>t. eid t = ''thread:x'')
         [threadAt ''thread:x'' ''X'' ''Open'' (lineLoc 2),
          threadAt ''thread:y'' ''Y'' ''Open'' (lineLoc 5),
          threadAt ''thread:x'' ''X'' ''Closed'' (lineLoc 9)]
   \<and> (\<exists>r. map_of (mergeThreads
          [threadAt ''thread:x'' ''X'' ''Open'' (lineLoc 2),
           threadAt ''thread:y'' ''Y'' ''Open'' (lineLoc 5),
           threadAt ''thread:x'' ''X'' ''Closed'' (lineLoc 9)]) ''thread:x'' = Some r
        \<and> state r = ''Closed'' \<and> length (mentions r) = 2)"
  using thread_last_write_wins [of
      "[threadAt ''thread:x'' ''X'' ''Open'' (lineLoc 2), threadAt ''thread:x'' ''X'' ''Closed'' (lineLoc 9)]"
      "''thread:x''"
      "[threadAt ''thread:x'' ''X'' ''Open'' (lineLoc 2),
        threadAt ''thread:y'' ''Y'' ''Open'' (lineLoc 5),
        threadAt ''thread:x'' ''X'' ''Closed'' (lineLoc 9)]"]
  by (auto simp: threadAt_def)

section \<open>Properties of the collected tags\<close>

lemmas spec_eval = specTagExtractor_def specExtractTags_def specExtractReferences_def
  isPrefixOf_def List.map_filter_def trim_def isSpace_def parseTagged_def parseThread_def
  toLowerCase_def toLowerChar_def

text \<open>
  Claim C5. The tag extractor is a parameter. For a campaign whose one scanned
  element yields no forward tag and the single back-reference of type \<open>ty\<close> and
  name \<open>n\<close>, the campaign has the \<open>Reference\<close> record under \<open>ty:n\<close> and, for an
  NPC reference, the one NPC entry \<open>npc:\<close> plus \<open>n\<close> in lower case with no tags
  and the one mention; for a location reference, the like entry among the
  locations.
\<close>

theorem reference_only_entity:
  assumes "contentToScan el = Some content" and "content \<noteq> []"
    and "loc = \<lparr>filePath = path, lineNumber = elementLine el,
            session = ''Session '' @ showNat (number sess), scene = sceneNumber sc\<rparr>"
    and "extractTags te content loc = \<lparr>npcs = [], locations = [], threads = [], clocks = [],
            tracks = [], timers = [], events = [], playerCharacters = []\<rparr>"
    and "extractReferences te content = [\<lparr>refType = ty, refName = n\<rparr>]"
    and "scenes sess = [sc]" and "elements sc = [el]"
    and "c = buildCampaign te [sess] path"
  shows "(ty = ''npc'' \<longrightarrow>
            campaignNPCs c = [(''npc:'' @ toLowerCase n,
               \<lparr>eid = ''npc:'' @ toLowerCase n, name = n, firstMention = loc,
                 mentions = [loc], tags = []\<rparr>)])
       \<and> (ty = ''location'' \<longrightarrow>
            campaignLocations c = [(''location:'' @ toLowerCase n,
               \<lparr>eid = ''location:'' @ toLowerCase n, name = n, firstMention = loc,
                 mentions = [loc], tags = []\<rparr>)])
       \<and> campaignReferences c = [(ty @ '':'' @ n,
               \<lparr>eid = n, name = n, firstMention = loc, mentions = [loc], rtype = ty\<rparr>)]"
  using assms
  by (simp add: buildCampaign_def collectAllTags_def collectElement_def collectReference_def
      emptyTags_def Let_def mergeNPCs_def mergeNPC_def mergeLocations_def mergeLocation_def
      mergeReferences_def mergeReference_def)

theorem reference_only_entity_witness:
  "campaignNPCs (buildCampaign specTagExtractor
       [sessionOf 1 [sceneOf ''S1'' [TextLine 12 ''[#N:Shadow]'']]] ''campaign.md'')
     = [(''npc:shadow'',
         \<lparr>eid = ''npc:shadow'', name = ''Shadow'',
           firstMention = \<lparr>filePath = ''campaign.md'', lineNumber = 12,
             session = ''Session 1'', scene = ''S1''\<rparr>,
           mentions = [\<lparr>filePath = ''campaign.md'', lineNumber = 12,
             session = ''Session 1'', scene = ''S1''\<rparr>],
           tags = []\<rparr>)]
   \<and> map fst (campaignReferences (buildCampaign specTagExtractor
       [sessionOf 1 [sceneOf ''S1'' [TextLine 12 ''[#N:Shadow]'']]] ''campaign.md''))
     = [''npc:Shadow'']"
  using reference_only_entity [of "TextLine 12 ''[#N:Shadow]''" "''[#N:Shadow]''"
      "\<lparr>filePath = ''campaign.md'', lineNumber = 12, session = ''Session 1'', scene = ''S1''\<rparr>"
      "''campaign.md''" "sessionOf 1 [sceneOf ''S1'' [TextLine 12 ''[#N:Shadow]'']]"
      "sceneOf ''S1'' [TextLine 12 ''[#N:Shadow]'']" specTagExtractor "''npc''" "''Shadow''"
      "buildCampaign specTagExtractor
         [sessionOf 1 [sceneOf ''S1'' [TextLine 12 ''[#N:Shadow]'']]] ''campaign.md''"]
  by (simp add: spec_eval sessionOf_def sceneOf_def showNat.simps)

subsection \<open>Identity keys\<close>

lemma not_digit_sep: "\<not> isDigit CHR ''/''" "\<not> isDigit CHR '' ''" "\<not> isDigit CHR ''|''"
  by (simp_all add: isDigit_def)

lemma takeWhile_digits_stop:
  "\<forall>c\<in>set ds. isDigit c \<Longrightarrow> \<not> isDigit x \<Longrightarrow> takeWhile isDigit (ds @ x # rest) = ds"
  by (induction ds) auto

lemma dropWhile_digits_stop:
  "\<forall>c\<in>set ds. isDigit c \<Longrightarrow> \<not> isDigit x \<Longrightarrow> dropWhile isDigit (ds @ x # rest) = x # rest"
  by (induction ds) auto

lemma parseProgress_form:
  assumes "cur \<noteq> []" "\<forall>c\<in>set cur. isDigit c" "tot \<noteq> []" "\<forall>c\<in>set tot. isDigit c"
    and "sep = CHR '' '' \<or> sep = CHR ''|''" and "trim raw \<noteq> []"
  shows "parseProgress kp l (raw @ sep # cur @ ''/'' @ tot) =
     Some \<lparr>pid = kp @ '':'' @ toLowerCase (trim raw), pname = trim raw,
            progressLocations = [l], current = parseDigits cur, total = parseDigits tot\<rparr>"
proof -
  have r: "rev (raw @ sep # cur @ ''/'' @ tot) = rev tot @ CHR ''/'' # (rev cur @ sep # rev raw)"
    by simp
  have dt: "\<forall>c\<in>set (rev tot). isDigit c" and dc: "\<forall>c\<in>set (rev cur). isDigit c"
    using assms by simp_all
  have nsep: "\<not> isDigit sep"
    using assms(5) not_digit_sep by auto
  have t1: "takeWhile isDigit (rev tot @ CHR ''/'' # (rev cur @ sep # rev raw)) = rev tot"
    by (rule takeWhile_digits_stop [OF dt not_digit_sep(1)])
  have d1: "dropWhile isDigit (rev tot @ CHR ''/'' # (rev cur @ sep # rev raw))
      = CHR ''/'' # (rev cur @ sep # rev raw)"
    by (rule dropWhile_digits_stop [OF dt not_digit_sep(1)])
  have t2: "takeWhile isDigit (rev cur @ sep # rev raw) = rev cur"
    by (rule takeWhile_digits_stop [OF dc nsep])
  have d2: "dropWhile isDigit (rev cur @ sep # rev raw) = sep # rev raw"
    by (rule dropWhile_digits_stop [OF dc nsep])
  show ?thesis
    unfolding parseProgress_def r Let_def t1 d1 list.sel t2 d2
    using assms by auto
qed

lemma parseTimer_form:
  assumes "v \<noteq> []" "\<forall>c\<in>set v. isDigit c"
    and "sep = CHR '' '' \<or> sep = CHR ''|''" and "trim raw \<noteq> []"
  shows "parseTimer l (raw @ sep # v) =
     Some \<lparr>pid = ''timer:'' @ toLowerCase (trim raw), pname = trim raw,
            progressLocations = [l], timerValue = parseDigits v\<rparr>"
proof -
  have r: "rev (raw @ sep # v) = rev v @ sep # rev raw"
    by simp
  have dv: "\<forall>c\<in>set (rev v). isDigit c"
    using assms by simp
  have nsep: "\<not> isDigit sep"
    using assms(3) not_digit_sep by auto
  have t1: "takeWhile isDigit (rev v @ sep # rev raw) = rev v"
    by (rule takeWhile_digits_stop [OF dv nsep])
  have d1: "dropWhile isDigit (rev v @ sep # rev raw) = sep # rev raw"
    by (rule dropWhile_digits_stop [OF dv nsep])
  show ?thesis
    unfolding parseTimer_def r Let_def t1 d1 list.sel
    using assms by auto
qed

lemma toLowerCase_Nil_iff: "toLowerCase s = [] \<longleftrightarrow> s = []"
  by (simp add: toLowerCase_def)

lemma keys_tagged:
  assumes "(kp, merge) \<in> {(''npc'', mergeNPCs), (''location'', mergeLocations),
             (''pc'', mergePlayerCharacters)}"
    and "trim (hd (splitOn CHR ''|'' b1)) \<noteq> []"
    and "toLowerCase (trim (hd (splitOn CHR ''|'' b1))) = toLowerCase (trim (hd (splitOn CHR ''|'' b2)))"
  shows "\<exists>m1 m2 r. parseTagged kp l1 b1 = Some m1 \<and> parseTagged kp l2 b2 = Some m2
           \<and> merge [m1, m2] = [(kp @ '':'' @ toLowerCase (trim (hd (splitOn CHR ''|'' b1))), r)]
           \<and> mentions r = [l1, l2]"
proof -
  have n2: "trim (hd (splitOn CHR ''|'' b2)) \<noteq> []"
    using assms(2,3) toLowerCase_Nil_iff by metis
  have "merge = mergeNPCs"
    using assms(1) by (auto simp: mergeLocations_eq mergePlayerCharacters_eq)
  then show ?thesis
    using assms(2,3) n2
    by (simp add: parseTagged_def Let_def mergeNPCs_def mergeNPC_def)
qed

lemma keys_thread:
  assumes "parseThread l1 b1 = Some t1" and "parseThread l2 b2 = Some t2"
    and "toLowerCase (trim (hd (splitOn CHR ''|'' b1))) = toLowerCase (trim (hd (splitOn CHR ''|'' b2)))"
  shows "\<exists>r. mergeThreads [t1, t2] = [(''thread:'' @ toLowerCase (trim (hd (splitOn CHR ''|'' b1))), r)]
           \<and> mentions r = [l1, l2] \<and> state r = state t2"
  using assms
  by (auto simp: parseThread_def Let_def mergeThreads_def mergeThread_def split: if_splits)

lemma keys_progress:
  assumes "(kp, merge) \<in> {(''clock'', mergeClocks), (''track'', mergeTracks), (''event'', mergeEvents)}"
    and "cur1 \<noteq> []" "\<forall>c\<in>set cur1. isDigit c" "tot1 \<noteq> []" "\<forall>c\<in>set tot1. isDigit c"
    and "cur2 \<noteq> []" "\<forall>c\<in>set cur2. isDigit c" "tot2 \<noteq> []" "\<forall>c\<in>set tot2. isDigit c"
    and "sep1 = CHR '' '' \<or> sep1 = CHR ''|''" and "sep2 = CHR '' '' \<or> sep2 = CHR ''|''"
    and "trim raw1 \<noteq> []" and "toLowerCase (trim raw1) = toLowerCase (trim raw2)"
  shows "\<exists>c1 c2 r. parseProgress kp l1 (raw1 @ sep1 # cur1 @ ''/'' @ tot1) = Some c1
           \<and> parseProgress kp l2 (raw2 @ sep2 # cur2 @ ''/'' @ tot2) = Some c2
           \<and> merge [c1, c2] = [(kp @ '':'' @ toLowerCase (trim raw1), r)]
           \<and> progressLocations r = [l1, l2]
           \<and> current r = parseDigits cur2 \<and> total r = parseDigits tot2"
proof -
  have n2: "trim raw2 \<noteq> []"
    using assms(12,13) toLowerCase_Nil_iff by metis
  have p1: "parseProgress kp l1 (raw1 @ sep1 # cur1 @ ''/'' @ tot1) =
     Some \<lparr>pid = kp @ '':'' @ toLowerCase (trim raw1), pname = trim raw1,
            progressLocations = [l1], current = parseDigits cur1, total = parseDigits tot1\<rparr>"
    using assms by (intro parseProgress_form) simp_all
  have p2: "parseProgress kp l2 (raw2 @ sep2 # cur2 @ ''/'' @ tot2) =
     Some \<lparr>pid = kp @ '':'' @ toLowerCase (trim raw2), pname = trim raw2,
            progressLocations = [l2], current = parseDigits cur2, total = parseDigits tot2\<rparr>"
    using assms n2 by (intro parseProgress_form) simp_all
  have "merge = mergeClocks"
    using assms(1) by (auto simp: mergeTracks_def mergeEvents_def mergeClocks_def fun_eq_iff)
  then show ?thesis
    unfolding p1 p2 using assms(13)
    by (simp add: mergeClocks_def mergeClock_def)
qed

lemma keys_timer:
  assumes "v1 \<noteq> []" "\<forall>c\<in>set v1. isDigit c" "v2 \<noteq> []" "\<forall>c\<in>set v2. isDigit c"
    and "sep1 = CHR '' '' \<or> sep1 = CHR ''|''" and "sep2 = CHR '' '' \<or> sep2 = CHR ''|''"
    and "trim raw1 \<noteq> []" and "toLowerCase (trim raw1) = toLowerCase (trim raw2)"
  shows "\<exists>c1 c2 r. parseTimer l1 (raw1 @ sep1 # v1) = Some c1
           \<and> parseTimer l2 (raw2 @ sep2 # v2) = Some c2
           \<and> mergeTimers [c1, c2] = [(''timer:'' @ toLowerCase (trim raw1), r)]
           \<and> progressLocations r = [l1, l2] \<and> timerValue r = parseDigits v2"
proof -
  have n2: "trim raw2 \<noteq> []"
    using assms(7,8) toLowerCase_Nil_iff by metis
  have p1: "parseTimer l1 (raw1 @ sep1 # v1) =
     Some \<lparr>pid = ''timer:'' @ toLowerCase (trim raw1), pname = trim raw1,
            progressLocations = [l1], timerValue = parseDigits v1\<rparr>"
    using assms by (intro parseTimer_form) simp_all
  have p2: "parseTimer l2 (raw2 @ sep2 # v2) =
     Some \<lparr>pid = ''timer:'' @ toLowerCase (trim raw2), pname = trim raw2,
            progressLocations = [l2], timerValue = parseDigits v2\<rparr>"
    using assms n2 by (intro parseTimer_form) simp_all
  show ?thesis
    unfolding p1 p2 using assms(8)
    by (simp add: mergeTimers_def mergeTimer_def)
qed

lemma keys_reference:
  assumes "acc = collectReference l2 (collectReference l1 emptyTags
              \<lparr>refType = ty, refName = n1\<rparr>) \<lparr>refType = ty, refName = n2\<rparr>"
    and "toLowerCase n1 = toLowerCase n2"
  shows "(ty = ''npc'' \<longrightarrow> (\<exists>r. mergeNPCs (npcs acc) = [(''npc:'' @ toLowerCase n1, r)]
              \<and> mentions r = [l1, l2]))
       \<and> (ty = ''location'' \<longrightarrow> (\<exists>r. mergeLocations (locations acc) = [(''location:'' @ toLowerCase n1, r)]
              \<and> mentions r = [l1, l2]))
       \<and> map fst (mergeReferences (references acc))
           = (if n1 = n2 then [ty @ '':'' @ n1] else [ty @ '':'' @ n1, ty @ '':'' @ n2])"
  using assms
  by (simp add: collectReference_def emptyTags_def Let_def mergeNPCs_def mergeNPC_def
      mergeLocations_def mergeLocation_def mergeReferences_def mergeReference_def)

text \<open>
  Claim C3 as stated includes the references. Two back-references whose names
  differ in letter case give two \<open>Reference\<close> records, since \<open>mergeReferences\<close>
  takes the name as it is written, while the NPC entries made from them share
  one key.
\<close>

theorem reference_keys_counterexample:
  "map fst (mergeReferences (references (collectReference (lineLoc 4)
       (collectReference (lineLoc 3) emptyTags \<lparr>refType = ''npc'', refName = ''Grim''\<rparr>)
       \<lparr>refType = ''npc'', refName = ''grim''\<rparr>)))
     = [''npc:Grim'', ''npc:grim'']
   \<and> map fst (campaignReferences (buildCampaign specTagExtractor
       [sessionOf 1 [sceneOf ''S1'' [TextLine 3 ''[#N:Grim]'', TextLine 4 ''[#N:grim]'']]]
       ''campaign.md''))
     = [''npc:Grim'', ''npc:grim'']
   \<and> map fst (campaignNPCs (buildCampaign specTagExtractor
       [sessionOf 1 [sceneOf ''S1'' [TextLine 3 ''[#N:Grim]'', TextLine 4 ''[#N:grim]'']]]
       ''campaign.md''))
     = [''npc:grim'']"
  by (simp add: spec_eval sessionOf_def sceneOf_def showNat.simps
      buildCampaign_def collectAllTags_def collectElement_def collectReference_def
      emptyTags_def Let_def mergeNPCs_def mergeNPC_def mergeLocations_def mergeLocation_def
      mergeReferences_def mergeReference_def)

text \<open>
  Claim C3, as amended. Two mentions of one kind whose names differ only in letter
  case or in surrounding white space get the same identity key and merge into
  one canonical record with both locations: NPCs, locations and player
  characters; threads; clocks, tracks and events; timers; and the NPC or location
  entries made from back-references, whose names the extractor has trimmed. The
  \<open>Reference\<close> records are keyed by the type and the name as written: they merge
  when the names are equal and stay apart otherwise.
\<close>

theorem identity_keys:
  "((kp, merge) \<in> {(''npc'', mergeNPCs), (''location'', mergeLocations),
                      (''pc'', mergePlayerCharacters)}
      \<and> trim (hd (splitOn CHR ''|'' b1)) \<noteq> []
      \<and> toLowerCase (trim (hd (splitOn CHR ''|'' b1))) = toLowerCase (trim (hd (splitOn CHR ''|'' b2)))
    \<longrightarrow> (\<exists>m1 m2 r. parseTagged kp l1 b1 = Some m1 \<and> parseTagged kp l2 b2 = Some m2
           \<and> merge [m1, m2] = [(kp @ '':'' @ toLowerCase (trim (hd (splitOn CHR ''|'' b1))), r)]
           \<and> mentions r = [l1, l2]))
   \<and> (parseThread l1 tb1 = Some t1 \<and> parseThread l2 tb2 = Some t2
      \<and> toLowerCase (trim (hd (splitOn CHR ''|'' tb1))) = toLowerCase (trim (hd (splitOn CHR ''|'' tb2)))
    \<longrightarrow> (\<exists>r. mergeThreads [t1, t2]
               = [(''thread:'' @ toLowerCase (trim (hd (splitOn CHR ''|'' tb1))), r)]
           \<and> mentions r = [l1, l2] \<and> state r = state t2))
   \<and> ((pk, pmerge) \<in> {(''clock'', mergeClocks), (''track'', mergeTracks), (''event'', mergeEvents)}
      \<and> cur1 \<noteq> [] \<and> (\<forall>c\<in>set cur1. isDigit c) \<and> tot1 \<noteq> [] \<and> (\<forall>c\<in>set tot1. isDigit c)
      \<and> cur2 \<noteq> [] \<and> (\<forall>c\<in>set cur2. isDigit c) \<and> tot2 \<noteq> [] \<and> (\<forall>c\<in>set tot2. isDigit c)
      \<and> (sep1 = CHR '' '' \<or> sep1 = CHR ''|'') \<and> (sep2 = CHR '' '' \<or> sep2 = CHR ''|'')
      \<and> trim raw1 \<noteq> [] \<and> toLowerCase (trim raw1) = toLowerCase (trim raw2)
    \<longrightarrow> (\<exists>c1 c2 r. parseProgress pk l1 (raw1 @ sep1 # cur1 @ ''/'' @ tot1) = Some c1
           \<and> parseProgress pk l2 (raw2 @ sep2 # cur2 @ ''/'' @ tot2) = Some c2
           \<and> pmerge [c1, c2] = [(pk @ '':'' @ toLowerCase (trim raw1), r)]
           \<and> progressLocations r = [l1, l2]
           \<and> current r = parseDigits cur2 \<and> total r = parseDigits tot2))
   \<and> (v1 \<noteq> [] \<and> (\<forall>c\<in>set v1. isDigit c) \<and> v2 \<noteq> [] \<and> (\<forall>c\<in>set v2. isDigit c)
      \<and> (sep1 = CHR '' '' \<or> sep1 = CHR ''|'') \<and> (sep2 = CHR '' '' \<or> sep2 = CHR ''|'')
      \<and> trim raw1 \<noteq> [] \<and> toLowerCase (trim raw1) = toLowerCase (trim raw2)
    \<longrightarrow> (\<exists>c1 c2 r. parseTimer l1 (raw1 @ sep1 # v1) = Some c1
           \<and> parseTimer l2 (raw2 @ sep2 # v2) = Some c2
           \<and> mergeTimers [c1, c2] = [(''timer:'' @ toLowerCase (trim raw1), r)]
           \<and> progressLocations r = [l1, l2] \<and> timerValue r = parseDigits v2))
   \<and> (acc = collectReference l2 (collectReference l1 emptyTags
              \<lparr>refType = ty, refName = n1\<rparr>) \<lparr>refType = ty, refName = n2\<rparr>
      \<and> toLowerCase n1 = toLowerCase n2
    \<longrightarrow> (ty = ''npc'' \<longrightarrow> (\<exists>r. mergeNPCs (npcs acc) = [(''npc:'' @ toLowerCase n1, r)]
              \<and> mentions r = [l1, l2]))
       \<and> (ty = ''location'' \<longrightarrow> (\<exists>r. mergeLocations (locations acc)
                = [(''location:'' @ toLowerCase n1, r)] \<and> mentions r = [l1, l2]))
       \<and> map fst (mergeReferences (references acc))
           = (if n1 = n2 then [ty @ '':'' @ n1] else [ty @ '':'' @ n1, ty @ '':'' @ n2]))"
proof (intro conjI)
  show "(kp, merge) \<in> {(''npc'', mergeNPCs), (''location'', mergeLocations),
                      (''pc'', mergePlayerCharacters)}
      \<and> trim (hd (splitOn CHR ''|'' b1)) \<noteq> []
      \<and> toLowerCase (trim (hd (splitOn CHR ''|'' b1))) = toLowerCase (trim (hd (splitOn CHR ''|'' b2)))
    \<longrightarrow> (\<exists>m1 m2 r. parseTagged kp l1 b1 = Some m1 \<and> parseTagged kp l2 b2 = Some m2
           \<and> merge [m1, m2] = [(kp @ '':'' @ toLowerCase (trim (hd (splitOn CHR ''|'' b1))), r)]
           \<and> mentions r = [l1, l2])"
    using keys_tagged [of kp merge b1 b2 l1 l2] by blast
next
  show "parseThread l1 tb1 = Some t1 \<and> parseThread l2 tb2 = Some t2
      \<and> toLowerCase (trim (hd (splitOn CHR ''|'' tb1))) = toLowerCase (trim (hd (splitOn CHR ''|'' tb2)))
    \<longrightarrow> (\<exists>r. mergeThreads [t1, t2]
               = [(''thread:'' @ toLowerCase (trim (hd (splitOn CHR ''|'' tb1))), r)]
           \<and> mentions r = [l1, l2] \<and> state r = state t2)"
    using keys_thread [of l1 tb1 t1 l2 tb2 t2] by blast
next
  show "(pk, pmerge) \<in> {(''clock'', mergeClocks), (''track'', mergeTracks), (''event'', mergeEvents)}
      \<and> cur1 \<noteq> [] \<and> (\<forall>c\<in>set cur1. isDigit c) \<and> tot1 \<noteq> [] \<and> (\<forall>c\<in>set tot1. isDigit c)
      \<and> cur2 \<noteq> [] \<and> (\<forall>c\<in>set cur2. isDigit c) \<and> tot2 \<noteq> [] \<and> (\<forall>c\<in>set tot2. isDigit c)
      \<and> (sep1 = CHR '' '' \<or> sep1 = CHR ''|'') \<and> (sep2 = CHR '' '' \<or> sep2 = CHR ''|'')
      \<and> trim raw1 \<noteq> [] \<and> toLowerCase (trim raw1) = toLowerCase (trim raw2)
    \<longrightarrow> (\<exists>c1 c2 r. parseProgress pk l1 (raw1 @ sep1 # cur1 @ ''/'' @ tot1) = Some c1
           \<and> parseProgress pk l2 (raw2 @ sep2 # cur2 @ ''/'' @ tot2) = Some c2
           \<and> pmerge [c1, c2] = [(pk @ '':'' @ toLowerCase (trim raw1), r)]
           \<and> progressLocations r = [l1, l2]
           \<and> current r = parseDigits cur2 \<and> total r = parseDigits tot2)"
    using keys_progress [of pk pmerge cur1 tot1 cur2 tot2 sep1 sep2 raw1 raw2 l1 l2] by blast
next
  show "v1 \<noteq> [] \<and> (\<forall>c\<in>set v1. isDigit c) \<and> v2 \<noteq> [] \<and> (\<forall>c\<in>set v2. isDigit c)
      \<and> (sep1 = CHR '' '' \<or> sep1 = CHR ''|'') \<and> (sep2 = CHR '' '' \<or> sep2 = CHR ''|'')
      \<and> trim raw1 \<noteq> [] \<and> toLowerCase (trim raw1) = toLowerCase (trim raw2)
    \<longrightarrow> (\<exists>c1 c2 r. parseTimer l1 (raw1 @ sep1 # v1) = Some c1
           \<and> parseTimer l2 (raw2 @ sep2 # v2) = Some c2
           \<and> mergeTimers [c1, c2] = [(''timer:'' @ toLowerCase (trim raw1), r)]
           \<and> progressLocations r = [l1, l2] \<and> timerValue r = parseDigits v2)"
    using keys_timer [of v1 v2 sep1 sep2 raw1 raw2 l1 l2] by blast
next
  show "acc = collectReference l2 (collectReference l1 emptyTags
              \<lparr>refType = ty, refName = n1\<rparr>) \<lparr>refType = ty, refName = n2\<rparr>
      \<and> toLowerCase n1 = toLowerCase n2
    \<longrightarrow> (ty = ''npc'' \<longrightarrow> (\<exists>r. mergeNPCs (npcs acc) = [(''npc:'' @ toLowerCase n1, r)]
              \<and> mentions r = [l1, l2]))
       \<and> (ty = ''location'' \<longrightarrow> (\<exists>r. mergeLocations (locations acc)
                = [(''location:'' @ toLowerCase n1, r)] \<and> mentions r = [l1, l2]))
       \<and> map fst (mergeReferences (references acc))
           = (if n1 = n2 then [ty @ '':'' @ n1] else [ty @ '':'' @ n1, ty @ '':'' @ n2])"
    using keys_reference [of acc l2 l1 ty n1 n2] by blast
qed

theorem identity_keys_witness:
  "(\<exists>m1 m2 r. parseTagged ''npc'' (lineLoc 1) ''  Grim  |friendly'' = Some m1
       \<and> parseTagged ''npc'' (lineLoc 2) ''grim'' = Some m2
       \<and> mergeNPCs [m1, m2] = [(''npc:grim'', r)] \<and> mentions r = [lineLoc 1, lineLoc 2])
   \<and> (\<exists>r. mergeThreads [threadAt ''thread:quest'' ''Quest'' ''Open'' (lineLoc 1),
                          threadAt ''thread:quest'' ''QUEST'' ''Closed'' (lineLoc 2)]
              = [(''thread:quest'', r)]
         \<and> mentions r = [lineLoc 1, lineLoc 2] \<and> state r = ''Closed'')
   \<and> (\<exists>c1 c2 r. parseProgress ''clock'' (lineLoc 1) ''Forest Ritual 3/6'' = Some c1
       \<and> parseProgress ''clock'' (lineLoc 2) ''forest ritual|4/6'' = Some c2
       \<and> mergeClocks [c1, c2] = [(''clock:forest ritual'', r)]
       \<and> progressLocations r = [lineLoc 1, lineLoc 2] \<and> current r = 4 \<and> total r = 6)
   \<and> (\<exists>c1 c2 r. parseTimer (lineLoc 1) ''Forest Ritual 5'' = Some c1
       \<and> parseTimer (lineLoc 2) ''forest ritual|3'' = Some c2
       \<and> mergeTimers [c1, c2] = [(''timer:forest ritual'', r)]
       \<and> progressLocations r = [lineLoc 1, lineLoc 2] \<and> timerValue r = 3)
   \<and> (\<exists>r. mergeNPCs (npcs (collectReference (lineLoc 2) (collectReference (lineLoc 1) emptyTags
              \<lparr>refType = ''npc'', refName = ''Grim''\<rparr>) \<lparr>refType = ''npc'', refName = ''grim''\<rparr>))
            = [(''npc:grim'', r)] \<and> mentions r = [lineLoc 1, lineLoc 2])
   \<and> map fst (mergeReferences (references (collectReference (lineLoc 2)
          (collectReference (lineLoc 1) emptyTags
              \<lparr>refType = ''npc'', refName = ''Grim''\<rparr>) \<lparr>refType = ''npc'', refName = ''grim''\<rparr>)))
        = [''npc:Grim'', ''npc:grim'']"
  using identity_keys [where kp = "''npc''" and merge = mergeNPCs
      and ?b1.0 = "''  Grim  |friendly''" and ?b2.0 = "''grim''"
      and ?l1.0 = "lineLoc 1" and ?l2.0 = "lineLoc 2"
      and ?tb1.0 = "''Quest|Open''" and ?tb2.0 = "''QUEST |Closed''"
      and ?t1.0 = "threadAt ''thread:quest'' ''Quest'' ''Open'' (lineLoc 1)"
      and ?t2.0 = "threadAt ''thread:quest'' ''QUEST'' ''Closed'' (lineLoc 2)"
      and pk = "''clock''" and pmerge = mergeClocks
      and ?cur1.0 = "''3''" and ?tot1.0 = "''6''" and ?cur2.0 = "''4''" and ?tot2.0 = "''6''"
      and ?sep1.0 = "CHR '' ''" and ?sep2.0 = "CHR ''|''"
      and ?raw1.0 = "''Forest Ritual''" and ?raw2.0 = "''forest ritual''"
      and ?v1.0 = "''5''" and ?v2.0 = "''3''"
      and acc = "collectReference (lineLoc 2) (collectReference (lineLoc 1) emptyTags
              \<lparr>refType = ''npc'', refName = ''Grim''\<rparr>) \<lparr>refType = ''npc'', refName = ''grim''\<rparr>"
      and ty = "''npc''" and ?n1.0 = "''Grim''" and ?n2.0 = "''grim''"]
  by (simp add: trim_def isSpace_def isDigit_def toLowerCase_def toLowerChar_def
      parseThread_def threadAt_def parseDigits_def)

section \<open>Properties of the progress helper and of the code block parser\<close>

lemma round_quotient:
  fixes cur tot :: int
  assumes "0 < tot"
  shows "2 * tot * ((200 * cur + tot) div (2 * tot)) \<le> 200 * cur + tot"
    and "200 * cur + tot < 2 * tot * ((200 * cur + tot) div (2 * tot) + 1)"
proof -
  let ?x = "200 * cur + tot" and ?d = "2 * tot"
  have pos: "0 < ?d" using assms by simp
  have e: "?d * (?x div ?d) + ?x mod ?d = ?x"
    by (rule mult_div_mod_eq)
  have lo: "0 \<le> ?x mod ?d" and hi: "?x mod ?d < ?d"
    using pos by simp_all
  show "?d * (?x div ?d) \<le> ?x"
    using e lo by linarith
  have "?d * (?x div ?d + 1) = ?d * (?x div ?d) + ?d"
    by (simp add: algebra_simps)
  then show "?x < ?d * (?x div ?d + 1)"
    using e hi by linarith
qed

lemma round_quotient_bounds:
  fixes cur tot :: int
  assumes "0 < tot" "0 \<le> cur" "cur \<le> tot"
  shows "0 \<le> (200 * cur + tot) div (2 * tot)" and "(200 * cur + tot) div (2 * tot) \<le> 100"
proof -
  show "0 \<le> (200 * cur + tot) div (2 * tot)"
    using assms by (simp add: pos_imp_zdiv_nonneg_iff)
  have "2 * tot * ((200 * cur + tot) div (2 * tot)) < 2 * tot * 101"
    using round_quotient(1) [OF assms(1), of cur] assms by linarith
  then have "(200 * cur + tot) div (2 * tot) < 101"
    using assms(1) by (simp add: mult_less_cancel_left_pos)
  then show "(200 * cur + tot) div (2 * tot) \<le> 100"
    by simp
qed

text \<open>
  Claim C9. \<open>calculateProgress\<close> is a total function with a value from 0 to 100 for
  every pair of whole numbers, and 0 for a total of 0. For a total above 0 and a
  current value from 0 to the total, the value is the percentage rounded to the
  nearest whole number, halves upwards: \<open>p \<le> 100 * current / total + 1/2 < p + 1\<close>.
\<close>

theorem calculateProgress_total:
  "0 \<le> calculateProgress cur tot \<and> calculateProgress cur tot \<le> 100
   \<and> calculateProgress cur 0 = 0
   \<and> (0 < tot \<and> 0 \<le> cur \<and> cur \<le> tot \<longrightarrow>
        2 * tot * calculateProgress cur tot \<le> 200 * cur + tot
        \<and> 200 * cur + tot < 2 * tot * (calculateProgress cur tot + 1))"
proof (intro conjI impI)
  show "0 \<le> calculateProgress cur tot" and "calculateProgress cur tot \<le> 100"
    and "calculateProgress cur 0 = 0"
    by (simp_all add: calculateProgress_def)
next
  assume h: "0 < tot \<and> 0 \<le> cur \<and> cur \<le> tot"
  then have eq: "calculateProgress cur tot = (200 * cur + tot) div (2 * tot)"
    using round_quotient_bounds [of tot cur] by (simp add: calculateProgress_def)
  show "2 * tot * calculateProgress cur tot \<le> 200 * cur + tot"
    unfolding eq using h by (intro round_quotient(1)) simp
  show "200 * cur + tot < 2 * tot * (calculateProgress cur tot + 1)"
    unfolding eq using h by (intro round_quotient(2)) simp
qed

theorem calculateProgress_total_witness:
  "calculateProgress 0 0 = 0 \<and> calculateProgress 1 8 = 13 \<and> calculateProgress 7 6 = 100
   \<and> (0::int) < 8 \<and> (0::int) \<le> 1 \<and> (1::int) \<le> 8
   \<and> 2 * 8 * calculateProgress 1 8 \<le> 200 * 1 + 8
   \<and> 200 * 1 + 8 < 2 * 8 * (calculateProgress 1 8 + 1)"
  using calculateProgress_total [of 1 8] calculateProgress_total [of 0 0]
    calculateProgress_total [of 7 6]
  by (simp add: calculateProgress_def)




section \<open>Properties of the tag extractor\<close>

lemma scan_skip:
  assumes "\<forall>ok\<in>set ops. \<exists>t. fst ok = CHR ''['' # t" and "CHR ''['' \<notin> set s"
  shows "scanTags ops (s @ rest) = scanTags ops rest"
  using assms(2)
proof (induction s)
  case Nil
  then show ?case by simp
next
  case (Cons c s)
  have "find (\<lambda>ok. isPrefixOf (fst ok) (c # s @ rest)) ops = None"
    using assms(1) Cons.prems by (auto simp: find_None_iff isPrefixOf_def)
  then show ?case
    using Cons by simp
qed

lemma takeWhile_close:
  "CHR '']'' \<notin> set b \<Longrightarrow> takeWhile (\<lambda>x. x \<noteq> CHR '']'') (b @ CHR '']'' # r) = b"
  by (induction b) auto

lemma dropWhile_close:
  "CHR '']'' \<notin> set b \<Longrightarrow> dropWhile (\<lambda>x. x \<noteq> CHR '']'') (b @ CHR '']'' # r) = CHR '']'' # r"
  by (induction b) auto

lemma scan_skip_body:
  assumes "\<forall>ok\<in>set ops. \<exists>t. fst ok = CHR ''['' # t" and "CHR ''['' \<notin> set b"
  shows "scanTags ops (b @ CHR '']'' # rest) = scanTags ops rest"
  using scan_skip [OF assms(1), of "b @ '']''" rest] assms(2) by simp

lemma skip_unparsed_tag:
  assumes "CHR ''['' \<notin> set body" and "CHR '']'' \<notin> set body"
    and "(opener = ''[N:'' \<and> parseTagged ''npc'' loc body = None)
       \<or> (opener = ''[L:'' \<and> parseTagged ''location'' loc body = None)
       \<or> (opener = ''[PC:'' \<and> parseTagged ''pc'' loc body = None)
       \<or> (opener = ''[Thread:'' \<and> parseThread loc body = None)
       \<or> (opener = ''[Clock:'' \<and> parseProgress ''clock'' loc body = None)
       \<or> (opener = ''[Track:'' \<and> parseProgress ''track'' loc body = None)
       \<or> (opener = ''[E:'' \<and> parseProgress ''event'' loc body = None)
       \<or> (opener = ''[Timer:'' \<and> parseTimer loc body = None)"
  shows "specExtractTags (opener @ body @ '']'' @ rest) loc = specExtractTags rest loc"
    and "specExtractReferences (opener @ body @ '']'' @ rest) = specExtractReferences rest"
  using assms
  by (auto simp: specExtractTags_def specExtractReferences_def isPrefixOf_def
      scan_skip_body takeWhile_close dropWhile_close List.map_filter_def)

lemma extracted_names_nonempty:
  shows "m \<in> set (npcs (specExtractTags text loc)) \<Longrightarrow> name m \<noteq> []"
    and "m \<in> set (locations (specExtractTags text loc)) \<Longrightarrow> name m \<noteq> []"
    and "m \<in> set (playerCharacters (specExtractTags text loc)) \<Longrightarrow> name m \<noteq> []"
    and "t \<in> set (threads (specExtractTags text loc)) \<Longrightarrow> name t \<noteq> []"
    and "c \<in> set (clocks (specExtractTags text loc)) \<Longrightarrow> pname c \<noteq> []"
    and "c \<in> set (tracks (specExtractTags text loc)) \<Longrightarrow> pname c \<noteq> []"
    and "c \<in> set (events (specExtractTags text loc)) \<Longrightarrow> pname c \<noteq> []"
    and "ti \<in> set (timers (specExtractTags text loc)) \<Longrightarrow> pname ti \<noteq> []"
    and "r \<in> set (specExtractReferences text) \<Longrightarrow> refName r \<noteq> []"
  by (auto simp: specExtractTags_def specExtractReferences_def List.map_filter_def
      parseTagged_def parseThread_def parseProgress_def parseTimer_def Let_def
      split: if_splits)

text \<open>
  Claim C8. The extractor is a total function, so no input makes it fail. No
  record it returns has an empty name, for any kind of tag. A tag of a forward
  kind whose body has no bracket and gives no record, as the body with an empty
  name does, is skipped: the text that starts with the tag is extracted as the
  text after the tag. The bodies of \<open>[N:]\<close>, \<open>[L:]\<close>, \<open>[PC:]\<close> and \<open>[Thread:]\<close> with
  a name that is empty after trimming give no record.
\<close>

theorem empty_name_skipped:
  "(\<forall>m\<in>set (npcs (specExtractTags text loc)) \<union> set (locations (specExtractTags text loc))
        \<union> set (playerCharacters (specExtractTags text loc)). name m \<noteq> [])
   \<and> (\<forall>t\<in>set (threads (specExtractTags text loc)). name t \<noteq> [])
   \<and> (\<forall>c\<in>set (clocks (specExtractTags text loc)) \<union> set (tracks (specExtractTags text loc))
        \<union> set (events (specExtractTags text loc)). pname c \<noteq> [])
   \<and> (\<forall>ti\<in>set (timers (specExtractTags text loc)). pname ti \<noteq> [])
   \<and> (\<forall>r\<in>set (specExtractReferences text). refName r \<noteq> [])
   \<and> (trim (hd (splitOn CHR ''|'' body)) = [] \<longrightarrow>
        parseTagged kp loc body = None \<and> parseThread loc body = None)
   \<and> (CHR ''['' \<notin> set body \<and> CHR '']'' \<notin> set body
       \<and> ((opener = ''[N:'' \<and> parseTagged ''npc'' loc body = None)
          \<or> (opener = ''[L:'' \<and> parseTagged ''location'' loc body = None)
          \<or> (opener = ''[PC:'' \<and> parseTagged ''pc'' loc body = None)
          \<or> (opener = ''[Thread:'' \<and> parseThread loc body = None)
          \<or> (opener = ''[Clock:'' \<and> parseProgress ''clock'' loc body = None)
          \<or> (opener = ''[Track:'' \<and> parseProgress ''track'' loc body = None)
          \<or> (opener = ''[E:'' \<and> parseProgress ''event'' loc body = None)
          \<or> (opener = ''[Timer:'' \<and> parseTimer loc body = None))
      \<longrightarrow> specExtractTags (opener @ body @ '']'' @ rest) loc = specExtractTags rest loc
          \<and> specExtractReferences (opener @ body @ '']'' @ rest) = specExtractReferences rest)"
proof (intro conjI impI ballI)
  fix m
  assume "m \<in> set (npcs (specExtractTags text loc)) \<union> set (locations (specExtractTags text loc))
        \<union> set (playerCharacters (specExtractTags text loc))"
  then show "name m \<noteq> []"
    using extracted_names_nonempty(1-3) by blast
next
  fix t assume "t \<in> set (threads (specExtractTags text loc))"
  then show "name t \<noteq> []" by (rule extracted_names_nonempty(4))
next
  fix c
  assume "c \<in> set (clocks (specExtractTags text loc)) \<union> set (tracks (specExtractTags text loc))
        \<union> set (events (specExtractTags text loc))"
  then show "pname c \<noteq> []"
    using extracted_names_nonempty(5-7) by blast
next
  fix ti assume "ti \<in> set (timers (specExtractTags text loc))"
  then show "pname ti \<noteq> []" by (rule extracted_names_nonempty(8))
next
  fix r assume "r \<in> set (specExtractReferences text)"
  then show "refName r \<noteq> []" by (rule extracted_names_nonempty(9))
next
  assume "trim (hd (splitOn CHR ''|'' body)) = []"
  then show "parseTagged kp loc body = None" and "parseThread loc body = None"
    by (simp_all add: parseTagged_def parseThread_def)
next
  assume h: "CHR ''['' \<notin> set body \<and> CHR '']'' \<notin> set body
       \<and> ((opener = ''[N:'' \<and> parseTagged ''npc'' loc body = None)
          \<or> (opener = ''[L:'' \<and> parseTagged ''location'' loc body = None)
          \<or> (opener = ''[PC:'' \<and> parseTagged ''pc'' loc body = None)
          \<or> (opener = ''[Thread:'' \<and> parseThread loc body = None)
          \<or> (opener = ''[Clock:'' \<and> parseProgress ''clock'' loc body = None)
          \<or> (opener = ''[Track:'' \<and> parseProgress ''track'' loc body = None)
          \<or> (opener = ''[E:'' \<and> parseProgress ''event'' loc body = None)
          \<or> (opener = ''[Timer:'' \<and> parseTimer loc body = None))"
  show "specExtractTags (opener @ body @ '']'' @ rest) loc = specExtractTags rest loc"
    using h by (intro skip_unparsed_tag(1)) simp_all
  show "specExtractReferences (opener @ body @ '']'' @ rest) = specExtractReferences rest"
    using h by (intro skip_unparsed_tag(2) [where loc = loc]) simp_all
qed

theorem empty_name_skipped_witness:
  "specExtractTags ''[N:] [L:] [Thread:]'' (lineLoc 1)
     = \<lparr>npcs = [], locations = [], threads = [], clocks = [], tracks = [], timers = [],
        events = [], playerCharacters = []\<rparr>
   \<and> trim (hd (splitOn CHR ''|'' '' |friendly'')) = []
   \<and> map name (npcs (specExtractTags ''[N: |friendly] and [N:Grim]'' (lineLoc 1))) = [''Grim'']
   \<and> specExtractTags (''[N:'' @ '' |friendly'' @ '']'' @ '' and [N:Grim]'') (lineLoc 1)
       = specExtractTags '' and [N:Grim]'' (lineLoc 1)"
  using empty_name_skipped [of "''[N: |friendly] and [N:Grim]''" "lineLoc 1" "'' |friendly''"
      "''npc''" "''[N:''" "'' and [N:Grim]''"]
  by (simp add: spec_eval)

section \<open>Properties of the scene parser\<close>

lemma sceneLoop_append:
  "sceneLoop p b (xs @ ys) i st = sceneLoop p b ys (i + length xs) (sceneLoop p b xs i st)"
  by (induction xs arbitrary: i st) simp_all

lemma sceneLoop_open_no_fence:
  "inCodeBlock st \<Longrightarrow> \<forall>l\<in>set ls. trim l \<noteq> ''```'' \<Longrightarrow>
   scanned (sceneLoop p b ls i st) = scanned st \<and> inCodeBlock (sceneLoop p b ls i st)"
  by (induction ls arbitrary: i st) (simp_all add: sceneLine_def)

lemma sceneLoop_inCodeBlock:
  "inCodeBlock (sceneLoop p b ls i st)
     = (inCodeBlock st \<noteq> odd (length (filter (\<lambda>l. trim l = ''```'') ls)))"
  by (induction ls arbitrary: i st) (auto simp: sceneLine_def)

lemma sceneLoop_closed_no_fence:
  "\<not> inCodeBlock st \<Longrightarrow> \<forall>l\<in>set ls. trim l \<noteq> ''```'' \<Longrightarrow> sceneLoop p b ls i st = st"
  by (induction ls arbitrary: i) (simp_all add: sceneLine_def)

text \<open>
  Claim C10. Let the lines of a scene be \<open>pre\<close>, then a fence line, then \<open>post\<close>,
  where the fences of \<open>pre\<close> are paired (an even number of them, so the fence
  line opens a block) and no line of \<open>post\<close> is a fence. Then the elements of the
  scene are those collected from \<open>pre\<close> alone: the lines after the opening fence
  add nothing. With no fence in \<open>pre\<close> either, the scene has no elements. The
  function is total: nothing is raised.
\<close>

theorem unterminated_block_dropped:
  assumes "splitOn newline content = pre @ fence # post"
    and "even (length (filter (\<lambda>l. trim l = ''```'') pre))"
    and "trim fence = ''```''"
    and "\<forall>l\<in>set post. trim l \<noteq> ''```''"
  shows "parseSceneContent parseCodeBlock content path base
           = scanned (sceneLoop parseCodeBlock base pre 0 sceneStart)
       \<and> ((\<forall>l\<in>set pre. trim l \<noteq> ''```'') \<longrightarrow>
            parseSceneContent parseCodeBlock content path base = [])"
proof -
  let ?st = "sceneLoop parseCodeBlock base pre 0 sceneStart"
  have closed: "\<not> inCodeBlock ?st"
    using assms(2) by (simp add: sceneLoop_inCodeBlock sceneStart_def)
  let ?st1 = "sceneLine parseCodeBlock base (length pre) ?st fence"
  have op: "inCodeBlock ?st1" and same: "scanned ?st1 = scanned ?st"
    using closed assms(3) by (simp_all add: sceneLine_def)
  have "scanned (sceneLoop parseCodeBlock base post (length pre + 1) ?st1) = scanned ?st1"
    using sceneLoop_open_no_fence [OF op assms(4)] by simp
  then have main: "parseSceneContent parseCodeBlock content path base = scanned ?st"
    using same by (simp add: parseSceneContent_def assms(1) sceneLoop_append)
  have "\<forall>l\<in>set pre. trim l \<noteq> ''```'' \<Longrightarrow> ?st = sceneStart"
    by (rule sceneLoop_closed_no_fence) (simp add: sceneStart_def)
  then have "\<forall>l\<in>set pre. trim l \<noteq> ''```'' \<Longrightarrow> scanned ?st = []"
    by (simp add: sceneStart_def)
  with main show ?thesis by simp
qed

theorem unterminated_block_dropped_witness:
  "parseSceneContent (\<lambda>s n. [TextLine n s])
      (joinWith newline [''intro'', ''```'', ''> a'', ''```'', ''x'', '' ``` '', ''[N:Grim]'', ''more''])
      ''campaign.md'' 10
     = [TextLine 12 ''> a'']
   \<and> parseSceneContent (\<lambda>s n. [TextLine n s])
      (joinWith newline [''intro'', ''```'', ''[N:Grim]'', ''more'']) ''campaign.md'' 10 = []"
  using unterminated_block_dropped [of
      "joinWith newline [''intro'', ''```'', ''> a'', ''```'', ''x'', '' ``` '', ''[N:Grim]'', ''more'']"
      "[''intro'', ''```'', ''> a'', ''```'', ''x'']" "'' ``` ''" "[''[N:Grim]'', ''more'']"
      "\<lambda>s n. [TextLine n s]" "''campaign.md''" 10]
    unterminated_block_dropped [of
      "joinWith newline [''intro'', ''```'', ''[N:Grim]'', ''more'']"
      "[''intro'']" "''```''" "[''[N:Grim]'', ''more'']"
      "\<lambda>s n. [TextLine n s]" "''campaign.md''" 10]
  by (simp add: newline_def trim_def isSpace_def sceneLine_def sceneStart_def)

section \<open>Properties of the session parser\<close>

lemma parseSessionFile_linked:
  "parseSessionFile app pcb p n = Some s \<Longrightarrow> linkedFile s = Some p \<and> number s = n"
  by (auto simp: parseSessionFile_def Let_def split: option.splits)

lemma closeSession_linked:
  assumes "s \<in> set (closeSession pcb path lastLine st)" and "linkedFile s \<noteq> None"
    and "\<forall>c. currentSession st = Some c \<longrightarrow> linkedFile c = None"
  shows "s \<in> set (sessionsDone st) \<and> linkedFile s \<noteq> None"
  using assms by (auto simp: closeSession_def split: option.splits)

lemma sessionsInv_step:
  assumes "sessionsInv lines k st"
  shows "sessionsInv lines (Suc k) (sessionsLine app pcb path lines links st k)"
proof (cases "matchSessionHeader (lines ! k)")
  case (Some n)
  then show ?thesis
    using assms closeSession_linked [of _ pcb path "k - 1" st]
    by (auto simp: sessionsInv_def sessionsLine_def Let_def)
next
  case None
  have lt: "(\<forall>j<Suc k. matchSessionHeader (lines ! j) = None)
      \<longleftrightarrow> (\<forall>j<k. matchSessionHeader (lines ! j) = None)"
    using None by (auto simp: less_Suc_eq)
  show ?thesis
  proof (cases "currentSession st")
    case (Some c)
    then show ?thesis
      using assms None lt by (auto simp: sessionsInv_def sessionsLine_def Let_def)
  next
    case cur: None
    then have nohdr: "\<forall>j\<le>k. matchSessionHeader (lines ! j) = None"
      using assms None by (auto simp: sessionsInv_def le_less)
    show ?thesis
    proof (cases "find (\<lambda>l. linkLineNumber l = k) links")
      case None
      then show ?thesis
        using assms cur \<open>matchSessionHeader (lines ! k) = None\<close> lt
        by (auto simp: sessionsInv_def sessionsLine_def Let_def)
    next
      case (Some l)
      then have lk: "linkLineNumber l = k"
        by (auto simp: find_Some_iff)
      show ?thesis
        using assms cur \<open>matchSessionHeader (lines ! k) = None\<close> lt Some lk nohdr
        by (auto simp: sessionsInv_def sessionsLine_def Let_def split: option.splits)
    qed
  qed
qed

lemma sessionsInv_run:
  "sessionsInv lines k (foldl (sessionsLine app pcb path lines links)
      \<lparr>sessionsDone = [], currentSession = None, currentSessionContent = [],
       sessionStartLine = 0\<rparr> [0..<k])"
proof (induction k)
  case 0
  then show ?case by (simp add: sessionsInv_def)
next
  case (Suc k)
  then show ?case using sessionsInv_step by simp
qed

lemma parseSessions_linked:
  assumes "s \<in> set (parseSessions app pcb content path)" and "linkedFile s \<noteq> None"
  shows "\<forall>j\<le>startLine s. matchSessionHeader (splitOn newline content ! j) = None"
proof -
  let ?lines = "splitOn newline content"
  let ?st = "foldl (sessionsLine app pcb path ?lines (extractSessionLinks app content path))
      \<lparr>sessionsDone = [], currentSession = None, currentSessionContent = [],
       sessionStartLine = 0\<rparr> [0..<length ?lines]"
  have inv: "sessionsInv ?lines (length ?lines) ?st"
    by (rule sessionsInv_run)
  have "s \<in> set (closeSession pcb path (length ?lines - 1) ?st)"
    using assms(1) by (simp add: parseSessions_def Let_def)
  then have "s \<in> set (sessionsDone ?st)"
    using closeSession_linked [OF _ assms(2)] inv by (simp add: sessionsInv_def)
  then show ?thesis
    using inv assms(2) by (simp add: sessionsInv_def)
qed

text \<open>
  Claim C2 as stated has an inline \<open>Session 2\<close> above a linked \<open>Session 1\<close> give
  the sessions 1 and 2. The link resolves and its note can be read, but the loop
  looks for a link only while no inline session has been opened, so the link is
  passed over and the campaign has session 2 alone.
\<close>

theorem sessions_sorted_counterexample:
  "map number (parseSessions (Some exampleApp) (\<lambda>block lineNo. [])
      (joinWith newline [''## Session 2'', ''[[Session 1]]'']) ''campaign.md'') = [2]
   \<and> extractSessionLinks (Some exampleApp)
      (joinWith newline [''## Session 2'', ''[[Session 1]]'']) ''campaign.md''
     = [\<lparr>linkLineNumber = 1, sessionNumber = 1, linkText = ''[[Session 1]]'',
         linkedFilePath = Some ''Session 1.md''\<rparr>]
   \<and> map_option number (parseSessionFile (Some exampleApp) (\<lambda>block lineNo. []) ''Session 1.md'' 1)
     = Some 1"
  by code_simp

text \<open>
  Claim C2, as amended. The sessions of a parsed campaign are sorted by number,
  ascending, in whatever order they are found. A linked session is found only
  when its link stands above the first inline session header: a linked
  \<open>Session 2\<close> above an inline \<open>Session 1\<close> gives the sessions 1 and 2.
\<close>

theorem sessions_sorted:
  "sorted (map number (parseSessions app parseCodeBlock content path))
   \<and> sorted (map number (campaignSessions
        (parseCampaignFile app tagExtractor parseCodeBlock content path)))
   \<and> (\<forall>s\<in>set (parseSessions app parseCodeBlock content path). linkedFile s \<noteq> None \<longrightarrow>
        (\<forall>j\<le>startLine s. matchSessionHeader (splitOn newline content ! j) = None))
   \<and> map number (parseSessions (Some exampleApp) (\<lambda>block lineNo. [])
        (joinWith newline [''[[Session 2]]'', ''## Session 1'']) ''campaign.md'') = [1, 2]"
proof (intro conjI ballI impI)
  show "sorted (map number (parseSessions app parseCodeBlock content path))"
    by (simp add: parseSessions_def Let_def)
  show "sorted (map number (campaignSessions
        (parseCampaignFile app tagExtractor parseCodeBlock content path)))"
    by (simp add: parseCampaignFile_def buildCampaign_def parseSessions_def Let_def)
next
  fix s
  assume "s \<in> set (parseSessions app parseCodeBlock content path)" and "linkedFile s \<noteq> None"
  then show "\<forall>j\<le>startLine s. matchSessionHeader (splitOn newline content ! j) = None"
    by (rule parseSessions_linked)
next
  show "map number (parseSessions (Some exampleApp) (\<lambda>block lineNo. [])
        (joinWith newline [''[[Session 2]]'', ''## Session 1'']) ''campaign.md'') = [1, 2]"
    by code_simp
qed

theorem sessions_sorted_witness:
  "map linkedFile (parseSessions (Some exampleApp) (\<lambda>block lineNo. [])
      (joinWith newline [''[[Session 2]]'', ''## Session 1'']) ''campaign.md'')
     = [None, Some ''Session 2.md'']
   \<and> map startLine (parseSessions (Some exampleApp) (\<lambda>block lineNo. [])
      (joinWith newline [''[[Session 2]]'', ''## Session 1'']) ''campaign.md'') = [1, 0]
   \<and> matchSessionHeader
        (splitOn newline (joinWith newline [''[[Session 2]]'', ''## Session 1'']) ! 0) = None"
proof -
  have run: "map (\<lambda>s. (linkedFile s, startLine s))
      (parseSessions (Some exampleApp) (\<lambda>block lineNo. [])
        (joinWith newline [''[[Session 2]]'', ''## Session 1'']) ''campaign.md'')
     = [(None, 1), (Some ''Session 2.md'', 0)]"
    by code_simp
  then obtain s1 s2 where
    ss: "parseSessions (Some exampleApp) (\<lambda>block lineNo. [])
        (joinWith newline [''[[Session 2]]'', ''## Session 1'']) ''campaign.md'' = [s1, s2]"
    and s1: "linkedFile s1 = None" "startLine s1 = 1"
    and s2: "linkedFile s2 = Some ''Session 2.md''" "startLine s2 = 0"
    by auto
  have "matchSessionHeader
      (splitOn newline (joinWith newline [''[[Session 2]]'', ''## Session 1'']) ! 0) = None"
    using sessions_sorted [of "Some exampleApp" "\<lambda>block lineNo. []"
      "joinWith newline [''[[Session 2]]'', ''## Session 1'']" "''campaign.md''" specTagExtractor]
      s2 unfolding ss by simp
  then show ?thesis
    using ss s1 s2 by simp
qed

end
